theory Spec2Isabelle
  imports Complex_Main "HOL-Library.Word"
begin

section \<open>PyMISP ELF object generator (pymisp/tools/elfobject.py)\<close>

text \<open>
  The module turns a binary parsed by lief into one \<open>elf\<close> MISP object and one
  \<open>elf-section\<close> MISP object per named section. Everything the module imports from
  outside (lief, hashlib, pydeep, uuid generation, \<open>bytes.decode\<close>) is a parameter of
  the model, collected in the record \<open>env\<close>; exceptions are values of \<open>py_error\<close>;
  the mutable world (fresh identifiers, the logger) is threaded as \<open>pstate\<close>.
\<close>

subsection \<open>Python values, exceptions\<close>

type_synonym byte = "8 word"
type_synonym bytes = "byte list"

text \<open>The class of a Python value, as \<open>type(x)\<close> returns it.\<close>

datatype pytype =
    T_NoneType | T_bool | T_int | T_str | T_bytes | T_list | T_BytesIO | T_ELF_Binary

text \<open>
  An exception message: a literal, or an f-string made of a literal followed by the
  rendering of a class (\<open>f'... {type(x)}'\<close>).
\<close>

datatype fstring = Lit string | Fmt string pytype

datatype py_error =
    InvalidMISPObject fstring
  | AttributeError string
  | IndexError
  | TypeError
  | PydeepError
  | UnicodeDecodeError

text \<open>
  The values a caller can pass for \<open>parsed\<close> and \<open>pseudofile\<close>. \<open>'b\<close> is the type
  of a \<open>lief.ELF.Binary\<close>. A \<open>BytesIO\<close> is given by its contents; a \<open>list\<close>
  holds values of any kind.
\<close>

datatype 'b pyval =
    PNone
  | PBool bool
  | PInt int
  | PStr string
  | PBytes bytes
  | PList "'b pyval list"
  | PBytesIO bytes
  | PBinary 'b

fun type_of :: "'b pyval \<Rightarrow> pytype" where
  "type_of PNone = T_NoneType"
| "type_of (PBool _) = T_bool"
| "type_of (PInt _) = T_int"
| "type_of (PStr _) = T_str"
| "type_of (PBytes _) = T_bytes"
| "type_of (PList _) = T_list"
| "type_of (PBytesIO _) = T_BytesIO"
| "type_of (PBinary _) = T_ELF_Binary"

text \<open>
  Python truth value testing (\<open>if x:\<close>): \<open>None\<close>, \<open>False\<close>, zero and empty
  sequences are false; an object whose class defines neither \<open>__bool__\<close> nor
  \<open>__len__\<close> (a \<open>BytesIO\<close>, a \<open>lief.ELF.Binary\<close>, a \<open>Path\<close>) is true.
\<close>

fun truthy :: "'b pyval \<Rightarrow> bool" where
  "truthy PNone = False"
| "truthy (PBool b) = b"
| "truthy (PInt i) = (i \<noteq> 0)"
| "truthy (PStr s) = (s \<noteq> [])"
| "truthy (PBytes b) = (b \<noteq> [])"
| "truthy (PList l) = (l \<noteq> [])"
| "truthy (PBytesIO _) = True"
| "truthy (PBinary _) = True"

text \<open>\<open>filepath: Path | str | None\<close>.\<close>

datatype pathlike = Path string | Str string

fun truthy_filepath :: "pathlike option \<Rightarrow> bool" where
  "truthy_filepath None = False"
| "truthy_filepath (Some (Path _)) = True"
| "truthy_filepath (Some (Str s)) = (s \<noteq> [])"

subsection \<open>String helpers\<close>

text \<open>\<open>s.split(c)\<close> for a one-character separator: every occurrence splits, empty
  pieces are kept, and the result is never empty.\<close>

fun split_chr :: "char \<Rightarrow> string \<Rightarrow> string list" where
  "split_chr c [] = [[]]"
| "split_chr c (x # xs) =
     (if x = c then [] # split_chr c xs
      else (let r = split_chr c xs in (x # hd r) # tl r))"

text \<open>\<open>xs[i]\<close> for a non-negative index: IndexError out of range.\<close>

definition py_index :: "'a list \<Rightarrow> nat \<Rightarrow> py_error + 'a" where
  "py_index xs i = (if i < length xs then Inr (xs ! i) else Inl IndexError)"

text \<open>
  A lief enum value is represented by what \<open>str()\<close> renders for it, for instance
  \<open>''E_TYPE.EXECUTABLE''\<close>. \<open>enum_label r\<close> is the expression
  \<open>str(x).split('.')[1]\<close> that the module applies to every enum.
\<close>

type_synonym lief_enum = string

definition enum_label :: "lief_enum \<Rightarrow> py_error + string" where
  "enum_label r = py_index (split_chr CHR ''.'' r) 1"

text \<open>\<open>str(n)\<close> for a non-negative integer, used by \<open>f'Section {pos} of ELF'\<close>.\<close>

definition digit_chr :: "nat \<Rightarrow> char" where
  "digit_chr d = ''0123456789'' ! d"

fun str_nat :: "nat \<Rightarrow> string" where
  "str_nat n =
     (if n < 10 then [digit_chr n] else str_nat (n div 10) @ [digit_chr (n mod 10)])"

subsection \<open>What lief reports\<close>

record Header =
  header_file_type :: lief_enum
  header_machine_type :: lief_enum
  header_identity_os_abi :: lief_enum

text \<open>\<open>'f\<close> is the type of Python floats; the entropy is only passed through.\<close>

record 'f Section =
  section_name :: string
  section_type :: lief_enum
  section_flags_list :: "lief_enum list"
  section_size :: int
  section_entropy :: 'f
  section_content :: bytes

record 'f Binary =
  binary_header :: Header
  binary_entrypoint :: int
  binary_sections :: "'f Section list"

text \<open>The three ways the module calls \<open>lief.ELF.parse\<close>: \<open>obj=\<close> with a
  \<open>BytesIO\<close>, \<open>raw=\<close> with a list, whatever it holds, and a path.\<close>

datatype 'b parse_arg = ParseObj bytes | ParseRaw "'b pyval list" | ParseFile pathlike

subsection \<open>The environment and the state\<close>

text \<open>
  \<open>pydeep\<close> is \<open>None\<close> when \<open>import pydeep\<close> raises ImportError, and the module's
  \<open>hash_buf\<close> otherwise. \<open>uuid4 n\<close> is the n-th identifier the process draws.
  \<open>lief_ELF_parse\<close> returns the exception lief raises for its argument (a TypeError
  for a raw list it cannot convert), \<open>None\<close> when lief yields no result, or the
  binary.
\<close>

record 'f env =
  pydeep :: "(bytes \<Rightarrow> py_error + bytes) option"
  decode :: "bytes \<Rightarrow> py_error + string"
  md5 :: "bytes \<Rightarrow> string"
  sha1 :: "bytes \<Rightarrow> string"
  sha256 :: "bytes \<Rightarrow> string"
  sha512 :: "bytes \<Rightarrow> string"
  lief_ELF_parse :: "'f Binary parse_arg \<Rightarrow> py_error + 'f Binary option"
  uuid4 :: "nat \<Rightarrow> string"

record pstate =
  uuids_drawn :: nat
  logged :: "string list"

text \<open>
  \<^verbatim>\<open>
  try:
      import pydeep
      HAS_PYDEEP = True
  except ImportError:
      HAS_PYDEEP = False
  \<close>
\<close>

definition HAS_PYDEEP :: "'f env \<Rightarrow> bool" where
  "HAS_PYDEEP w = (case pydeep w of Some _ \<Rightarrow> True | None \<Rightarrow> False)"

subsection \<open>The MISP object base class\<close>

datatype 'f attr_value = VStr string | VInt int | VFloat 'f

record kwargs =
  kw_standalone :: bool
  kw_default_attributes_parameters :: "(string \<times> string) list"

record 'f MISPObject =
  obj_name :: string
  uuid :: string
  standalone :: bool
  default_attributes_parameters :: "(string \<times> string) list"
  Attribute :: "(string \<times> 'f attr_value) list"
  references :: "(string \<times> string \<times> string) list"

text \<open>
  Modelled from the spec: \<open>AbstractMISPObjectGenerator.__init__\<close> is not among the
  sources. Each record is a top-level record with its own identifier, it starts with no
  attribute and no reference, and it keeps the \<open>standalone\<close> and
  \<open>default_attributes_parameters\<close> keyword arguments.
\<close>

definition super_init ::
  "'f env \<Rightarrow> string \<Rightarrow> kwargs \<Rightarrow> pstate \<Rightarrow> 'f MISPObject \<times> pstate" where
  "super_init w nm kw st =
     (\<lparr> obj_name = nm, uuid = uuid4 w (uuids_drawn st),
         standalone = kw_standalone kw,
         default_attributes_parameters = kw_default_attributes_parameters kw,
         Attribute = [], references = [] \<rparr>,
      st\<lparr> uuids_drawn := Suc (uuids_drawn st) \<rparr>)"

text \<open>
  Modelled from the spec: \<open>add_attribute(name, value)\<close> is not among the sources. The
  record exposes it and this module calls it; the model records the call, in order.
\<close>

definition add_attribute ::
  "string \<Rightarrow> 'f attr_value \<Rightarrow> ('f, 'm) MISPObject_scheme \<Rightarrow> ('f, 'm) MISPObject_scheme" where
  "add_attribute rel v self = self\<lparr> Attribute := Attribute self @ [(rel, v)] \<rparr>"

text \<open>
  Modelled from the spec: \<open>add_reference(target_id, relation_kind, label)\<close> is not
  among the sources; the model records the call, in order.
\<close>

definition add_reference ::
  "string \<Rightarrow> string \<Rightarrow> string \<Rightarrow> ('f, 'm) MISPObject_scheme \<Rightarrow> ('f, 'm) MISPObject_scheme" where
  "add_reference target kind label self =
     self\<lparr> references := references self @ [(target, kind, label)] \<rparr>"

text \<open>The attributes recorded under one object relation, in order.\<close>

definition get_attributes ::
  "string \<Rightarrow> ('f, 'm) MISPObject_scheme \<Rightarrow> 'f attr_value list" where
  "get_attributes rel self = map snd (filter (\<lambda>a. fst a = rel) (Attribute self))"

subsection \<open>ELFSectionObject\<close>

text \<open>\<open>priv_section\<close> and \<open>priv_data\<close> are the private attributes \<open>__section\<close> and
  \<open>__data\<close>.\<close>

record 'f ELFSectionObject = "'f MISPObject" +
  priv_section :: "'f Section"
  priv_data :: bytes

text \<open>\<open>for flag in self.__section.flags_list: self.add_attribute('flag', ...)\<close>\<close>

fun add_flags ::
  "lief_enum list \<Rightarrow> 'f ELFSectionObject \<Rightarrow> py_error + 'f ELFSectionObject" where
  "add_flags [] self = Inr self"
| "add_flags (flag # rest) self =
     (case enum_label flag of
        Inl e \<Rightarrow> Inl e
      | Inr l \<Rightarrow> add_flags rest (add_attribute ''flag'' (VStr l) self))"

text \<open>\<open>self.add_attribute('ssdeep', value=pydeep.hash_buf(self.__data).decode())\<close>\<close>

definition add_ssdeep ::
  "'f env \<Rightarrow> 'f ELFSectionObject \<Rightarrow> py_error + 'f ELFSectionObject" where
  "add_ssdeep w self =
     (case pydeep w of
        None \<Rightarrow> Inr self
      | Some hash_buf \<Rightarrow>
          (case hash_buf (priv_data self) of
             Inl e \<Rightarrow> Inl e
           | Inr h \<Rightarrow>
               (case decode w h of
                  Inl e \<Rightarrow> Inl e
                | Inr d \<Rightarrow> Inr (add_attribute ''ssdeep'' (VStr d) self))))"

text \<open>
  \<open>ELFSectionObject.generate_attributes\<close>. The digests and the fuzzy hash are taken
  of \<open>self.__data\<close>; \<open>int(self.__section.size) > 0\<close> guards the whole block.
\<close>

definition ELFSectionObject_generate_attributes ::
  "'f env \<Rightarrow> 'f ELFSectionObject \<Rightarrow> py_error + 'f ELFSectionObject" where
  "ELFSectionObject_generate_attributes w self =
     (let self1 = add_attribute ''name'' (VStr (section_name (priv_section self))) self in
      case enum_label (section_type (priv_section self)) of
        Inl e \<Rightarrow> Inl e
      | Inr t \<Rightarrow>
          (case add_flags (section_flags_list (priv_section self))
                  (add_attribute ''type'' (VStr t) self1) of
             Inl e \<Rightarrow> Inl e
           | Inr self2 \<Rightarrow>
               (let self3 = add_attribute ''size-in-bytes''
                              (VInt (section_size (priv_section self))) self2 in
                if section_size (priv_section self) > 0 then
                  (let self4 = add_attribute ''entropy''
                                 (VFloat (section_entropy (priv_section self))) self3;
                       self5 = add_attribute ''md5'' (VStr (md5 w (priv_data self))) self4;
                       self6 = add_attribute ''sha1'' (VStr (sha1 w (priv_data self))) self5;
                       self7 = add_attribute ''sha256'' (VStr (sha256 w (priv_data self))) self6;
                       self8 = add_attribute ''sha512'' (VStr (sha512 w (priv_data self))) self7
                   in if HAS_PYDEEP w then add_ssdeep w self8 else Inr self8)
                else Inr self3)))"

text \<open>
  \<open>ELFSectionObject.__init__\<close>: the section's content is read here, once, into
  \<open>self.__data\<close> (\<open>bytes(...)\<close> of a byte sequence is that sequence).
\<close>

definition ELFSectionObject_init ::
  "'f env \<Rightarrow> 'f Section \<Rightarrow> kwargs \<Rightarrow> pstate \<Rightarrow>
     (py_error + 'f ELFSectionObject) \<times> pstate" where
  "ELFSectionObject_init w sec kw st =
     (let (base, st1) = super_init w ''elf-section'' kw st;
          self = MISPObject.extend base
                   (ELFSectionObject.fields sec (section_content sec))
      in (ELFSectionObject_generate_attributes w self, st1))"

subsection \<open>ELFObject\<close>

text \<open>\<open>priv_elf\<close> is the private attribute \<open>__elf\<close>: \<open>None\<close> while it was never
  assigned. \<open>sections\<close> is assigned by \<open>generate_attributes\<close> before it is read.\<close>

record 'f ELFObject = "'f MISPObject" +
  priv_elf :: "'f Binary option"
  sections :: "'f ELFSectionObject list"

text \<open>The keyword arguments \<open>standalone=self._standalone,
  default_attributes_parameters=self._default_attributes_parameters\<close>.\<close>

definition kwargs_of :: "('f, 'm) MISPObject_scheme \<Rightarrow> kwargs" where
  "kwargs_of self =
     \<lparr> kw_standalone = standalone self,
       kw_default_attributes_parameters = default_attributes_parameters self \<rparr>"

text \<open>\<open>f'Section {pos} of ELF'\<close>\<close>

definition section_label :: "nat \<Rightarrow> string" where
  "section_label pos = ''Section '' @ str_nat pos @ '' of ELF''"

text \<open>
  One pass through the body of \<open>for section in self.__elf.sections\<close> for a section
  with a name: build the section object, reference it, append it.
\<close>

definition section_body ::
  "'f env \<Rightarrow> 'f Section \<Rightarrow> nat \<Rightarrow> 'f ELFObject \<Rightarrow> pstate \<Rightarrow>
     (py_error + 'f ELFObject) \<times> pstate" where
  "section_body w sec pos self st =
     (case ELFSectionObject_init w sec (kwargs_of self) st of
        (Inl e, st1) \<Rightarrow> (Inl e, st1)
      | (Inr s, st1) \<Rightarrow>
          (let self1 = add_reference (uuid s) ''includes'' (section_label pos) self
           in (Inr (self1\<lparr> sections := sections self1 @ [s] \<rparr>), st1)))"

text \<open>
  The loop, with the counter \<open>pos\<close>: a section without a name is skipped
  (\<open>continue\<close>) and does not advance \<open>pos\<close>; an exception raised while a section
  object is built leaves the loop.
\<close>

fun section_loop ::
  "'f env \<Rightarrow> 'f Section list \<Rightarrow> nat \<Rightarrow> 'f ELFObject \<Rightarrow> pstate \<Rightarrow>
     (py_error + 'f ELFObject) \<times> pstate" where
  "section_loop w [] pos self st = (Inr self, st)"
| "section_loop w (sec # rest) pos self st =
     (if section_name sec = [] then section_loop w rest pos self st
      else
        (case section_body w sec pos self st of
           (Inl e, st1) \<Rightarrow> (Inl e, st1)
         | (Inr self1, st1) \<Rightarrow> section_loop w rest (pos + 1) self1 st1))"

text \<open>
  \<open>ELFObject.generate_attributes\<close>. Reading \<open>self.__elf\<close> while it was never
  assigned raises AttributeError. \<open>if self.__elf.sections:\<close> is true when lief
  reports at least one section. \<open>self.sections\<close> is assigned the empty list before
  the loop.
\<close>

definition ELFObject_generate_attributes ::
  "'f env \<Rightarrow> 'f ELFObject \<Rightarrow> pstate \<Rightarrow> (py_error + 'f ELFObject) \<times> pstate" where
  "ELFObject_generate_attributes w self st =
     (case priv_elf self of
        None \<Rightarrow> (Inl (AttributeError ''_ELFObject__elf''), st)
      | Some e \<Rightarrow>
          (case enum_label (header_file_type (binary_header e)) of
             Inl err \<Rightarrow> (Inl err, st)
           | Inr ft \<Rightarrow>
               (let self1 = add_attribute ''type'' (VStr ft) self;
                    self2 = add_attribute ''entrypoint-address''
                              (VInt (binary_entrypoint e)) self1
                in case enum_label (header_machine_type (binary_header e)) of
                     Inl err \<Rightarrow> (Inl err, st)
                   | Inr mt \<Rightarrow>
                       (let self3 = add_attribute ''arch'' (VStr mt) self2
                        in case enum_label (header_identity_os_abi (binary_header e)) of
                             Inl err \<Rightarrow> (Inl err, st)
                           | Inr abi \<Rightarrow>
                               (let self4 = add_attribute ''os_abi'' (VStr abi) self3;
                                    self5 = self4\<lparr> sections := [] \<rparr>
                                in case (if binary_sections e \<noteq> []
                                         then section_loop w (binary_sections e) 0 self5 st
                                         else (Inr self5, st)) of
                                     (Inl err, st1) \<Rightarrow> (Inl err, st1)
                                   | (Inr self6, st1) \<Rightarrow>
                                       (Inr (add_attribute ''number-sections''
                                               (VInt (int (length (sections self6)))) self6),
                                        st1))))))"

definition pydeep_warning :: string where
  "pydeep_warning =
     ''pydeep is missing, please install pymisp this way: pip install pymisp[fileobjects]''"

text \<open>
  The \<open>if pseudofile: ... elif filepath: ... elif parsed: ...\<close> chain of
  \<open>ELFObject.__init__\<close>: the exception it raises, or what it leaves in
  \<open>self.__elf\<close> (\<open>None\<close> when no branch assigns it). \<open>list(pseudofile)\<close> of a
  \<open>bytes\<close> is the list of its byte values. An exception raised by
  \<open>lief.ELF.parse\<close> leaves the constructor.
  \<^verbatim>\<open>
  if pseudofile:
      if isinstance(pseudofile, BytesIO):
          e = lief.ELF.parse(obj=pseudofile)
      elif isinstance(pseudofile, bytes):
          e = lief.ELF.parse(raw=list(pseudofile))
      elif isinstance(pseudofile, list):
          e = lief.ELF.parse(raw=pseudofile)
      else:
          raise InvalidMISPObject(f'Pseudo file can be BytesIO or bytes got {type(pseudofile)}')
      if not e:
          raise InvalidMISPObject('Unable to parse pseudofile')
      self.__elf = e
  elif filepath:
      if e := lief.ELF.parse(filepath):
          self.__elf = e
  elif parsed:
      if isinstance(parsed, lief.ELF.Binary):
          self.__elf = parsed
      else:
          raise InvalidMISPObject(f'Not a lief.ELF.Binary: {type(parsed)}')
  \<close>
\<close>

definition resolve_input ::
  "'f env \<Rightarrow> 'f Binary pyval \<Rightarrow> pathlike option \<Rightarrow> 'f Binary pyval \<Rightarrow>
     py_error + 'f Binary option" where
  "resolve_input w parsed filepath pseudofile =
     (if truthy pseudofile then
        (case (case pseudofile of
                 PBytesIO b \<Rightarrow> lief_ELF_parse w (ParseObj b)
               | PBytes b \<Rightarrow> lief_ELF_parse w (ParseRaw (map (\<lambda>x. PInt (uint x)) b))
               | PList l \<Rightarrow> lief_ELF_parse w (ParseRaw l)
               | _ \<Rightarrow> Inl (InvalidMISPObject
                           (Fmt ''Pseudo file can be BytesIO or bytes got ''
                                (type_of pseudofile)))) of
           Inl err \<Rightarrow> Inl err
         | Inr None \<Rightarrow> Inl (InvalidMISPObject (Lit ''Unable to parse pseudofile''))
         | Inr (Some e) \<Rightarrow> Inr (Some e))
      else if truthy_filepath filepath then
        (case filepath of
           None \<Rightarrow> Inr None
         | Some path \<Rightarrow>
             (case lief_ELF_parse w (ParseFile path) of
                Inl err \<Rightarrow> Inl err
              | Inr (Some e) \<Rightarrow> Inr (Some e)
              | Inr None \<Rightarrow> Inr None))
      else if truthy parsed then
        (case parsed of
           PBinary b \<Rightarrow> Inr (Some b)
         | _ \<Rightarrow> Inl (InvalidMISPObject (Fmt ''Not a lief.ELF.Binary: '' (type_of parsed))))
      else Inr None)"

text \<open>
  \<open>ELFObject.__init__(parsed, filepath, pseudofile, **kwargs)\<close>: the base class is
  initialised, the warning is logged when pydeep is missing, the input is resolved, and
  \<open>generate_attributes\<close> runs on whatever \<open>self.__elf\<close> is by then.
\<close>

definition ELFObject_init ::
  "'f env \<Rightarrow> 'f Binary pyval \<Rightarrow> pathlike option \<Rightarrow> 'f Binary pyval \<Rightarrow> kwargs \<Rightarrow> pstate \<Rightarrow>
     (py_error + 'f ELFObject) \<times> pstate" where
  "ELFObject_init w parsed filepath pseudofile kw st =
     (let (base, st1) = super_init w ''elf'' kw st;
          self = MISPObject.extend base (ELFObject.fields None []);
          st2 = (if \<not> HAS_PYDEEP w
                 then st1\<lparr> logged := logged st1 @ [pydeep_warning] \<rparr> else st1)
      in case resolve_input w parsed filepath pseudofile of
           Inl err \<Rightarrow> (Inl err, st2)
         | Inr e \<Rightarrow> ELFObject_generate_attributes w (self\<lparr> priv_elf := e \<rparr>) st2)"

subsection \<open>Vocabulary of the statements\<close>

text \<open>The sections the loop retains: those with a name, in the parser's order.\<close>

definition named :: "'f Section list \<Rightarrow> 'f Section list" where
  "named secs = filter (\<lambda>sec. section_name sec \<noteq> []) secs"

text \<open>The state after \<open>k\<close> more identifiers were drawn.\<close>

definition drawn :: "nat \<Rightarrow> pstate \<Rightarrow> pstate" where
  "drawn k st = st\<lparr> uuids_drawn := uuids_drawn st + k \<rparr>"

text \<open>The five attributes that open the \<open>size > 0\<close> block, computed from the cached
  content \<open>self.__data\<close>.\<close>

definition sized_attributes ::
  "'f env \<Rightarrow> 'f ELFSectionObject \<Rightarrow> (string \<times> 'f attr_value) list" where
  "sized_attributes w self =
     [(''entropy'', VFloat (section_entropy (priv_section self))),
      (''md5'', VStr (md5 w (priv_data self))),
      (''sha1'', VStr (sha1 w (priv_data self))),
      (''sha256'', VStr (sha256 w (priv_data self))),
      (''sha512'', VStr (sha512 w (priv_data self)))]"

text \<open>The state in which \<open>ELFObject.__init__\<close> calls \<open>generate_attributes\<close>: one
  identifier drawn, and the warning logged when pydeep is missing.\<close>

definition entered :: "'f env \<Rightarrow> pstate \<Rightarrow> pstate" where
  "entered w st =
     (if \<not> HAS_PYDEEP w
      then (drawn 1 st)\<lparr> logged := logged st @ [pydeep_warning] \<rparr> else drawn 1 st)"

text \<open>
  The bare label in the spec's words: what is left of the rendered classification once
  everything up to and including the last namespace separator is discarded
  (\<open>ELF.EXE\<close> gives \<open>EXE\<close>).
\<close>

definition spec_bare_label :: "lief_enum \<Rightarrow> string" where
  "spec_bare_label r = rev (takeWhile (\<lambda>c. c \<noteq> CHR ''.'') (rev r))"

text \<open>The exception is an \<open>InvalidMISPObject\<close>, whatever its message.\<close>

fun is_InvalidMISPObject :: "py_error + 'a \<Rightarrow> bool" where
  "is_InvalidMISPObject (Inl (InvalidMISPObject _)) = True"
| "is_InvalidMISPObject _ = False"

subsection \<open>A concrete environment and concrete inputs\<close>

text \<open>
  Stand-ins for the external libraries, to run the model on concrete inputs: digests of
  the right lengths, a fuzzy hash that renders the length of its input, a decoder
  for digits and colons, and a parser that knows one buffer and one path and raises
  TypeError for a raw list that is no list of byte values.
\<close>

definition demo_hex :: "nat \<Rightarrow> bytes \<Rightarrow> string" where
  "demo_hex n b = replicate n (digit_chr (length b mod 10))"

definition demo_hash_buf :: "bytes \<Rightarrow> py_error + bytes" where
  "demo_hash_buf b = Inr [of_nat (48 + length b mod 10), 58, 58]"

definition demo_decode :: "bytes \<Rightarrow> py_error + string" where
  "demo_decode b =
     (if list_all (\<lambda>x. 48 \<le> x \<and> x \<le> 58) b
      then Inr (map (\<lambda>x. ''0123456789:'' ! (unat x - 48)) b)
      else Inl UnicodeDecodeError)"

definition demo_text :: "real Section" where
  "demo_text =
     \<lparr> section_name = ''.text'', section_type = ''SECTION_TYPES.PROGBITS'',
       section_flags_list = [''SECTION_FLAGS.ALLOC'', ''SECTION_FLAGS.EXECINSTR''],
       section_size = 4, section_entropy = 2, section_content = [1, 2, 3, 4] \<rparr>"

definition demo_bss :: "real Section" where
  "demo_bss =
     \<lparr> section_name = ''.bss'', section_type = ''SECTION_TYPES.NOBITS'',
       section_flags_list = [''SECTION_FLAGS.WRITE''],
       section_size = 0, section_entropy = 0, section_content = [] \<rparr>"

definition demo_unnamed :: "real Section" where
  "demo_unnamed =
     \<lparr> section_name = [], section_type = ''SECTION_TYPES.NULL'',
       section_flags_list = [],
       section_size = 0, section_entropy = 0, section_content = [] \<rparr>"

definition demo_binary :: "real Binary" where
  "demo_binary =
     \<lparr> binary_header =
         \<lparr> header_file_type = ''E_TYPE.EXECUTABLE'', header_machine_type = ''ARCH.x86_64'',
           header_identity_os_abi = ''OS_ABI.SYSTEMV'' \<rparr>,
       binary_entrypoint = 4198400,
       binary_sections = [demo_unnamed, demo_text, demo_bss] \<rparr>"

fun is_byte_value :: "'b pyval \<Rightarrow> bool" where
  "is_byte_value (PInt i) = (0 \<le> i \<and> i < 256)"
| "is_byte_value _ = False"

definition demo_parse :: "real Binary parse_arg \<Rightarrow> py_error + real Binary option" where
  "demo_parse a =
     (case a of
        ParseRaw l \<Rightarrow>
          (if \<not> list_all is_byte_value l then Inl TypeError
           else if l = [PInt 127, PInt 69, PInt 76, PInt 70] then Inr (Some demo_binary)
           else Inr None)
      | ParseObj b \<Rightarrow> (if b = [127, 69, 76, 70] then Inr (Some demo_binary) else Inr None)
      | ParseFile p \<Rightarrow> (if p = Str ''a.out'' then Inr (Some demo_binary) else Inr None))"

definition demo_env :: "bool \<Rightarrow> real env" where
  "demo_env has_pydeep =
     \<lparr> pydeep = (if has_pydeep then Some demo_hash_buf else None),
       decode = demo_decode,
       md5 = demo_hex 32, sha1 = demo_hex 40, sha256 = demo_hex 64, sha512 = demo_hex 128,
       lief_ELF_parse = demo_parse,
       uuid4 = (\<lambda>n. ''uuid-'' @ str_nat n) \<rparr>"

definition demo_kwargs :: kwargs where
  "demo_kwargs = \<lparr> kw_standalone = True, kw_default_attributes_parameters = [] \<rparr>"

definition demo_state :: pstate where
  "demo_state = \<lparr> uuids_drawn = 0, logged = [] \<rparr>"

text \<open>The section objects expected for \<open>demo_text\<close> and \<open>demo_bss\<close>.\<close>

definition demo_text_object :: "string \<Rightarrow> bool \<Rightarrow> real ELFSectionObject" where
  "demo_text_object uid has_pydeep =
     \<lparr> obj_name = ''elf-section'', uuid = uid, standalone = True,
       default_attributes_parameters = [],
       Attribute =
         [(''name'', VStr ''.text''), (''type'', VStr ''PROGBITS''),
          (''flag'', VStr ''ALLOC''), (''flag'', VStr ''EXECINSTR''),
          (''size-in-bytes'', VInt 4), (''entropy'', VFloat 2),
          (''md5'', VStr (replicate 32 CHR ''4'')),
          (''sha1'', VStr (replicate 40 CHR ''4'')),
          (''sha256'', VStr (replicate 64 CHR ''4'')),
          (''sha512'', VStr (replicate 128 CHR ''4''))]
         @ (if has_pydeep then [(''ssdeep'', VStr ''4::'')] else []),
       references = [],
       priv_section = demo_text, priv_data = [1, 2, 3, 4] \<rparr>"

definition demo_bss_object :: "string \<Rightarrow> real ELFSectionObject" where
  "demo_bss_object uid =
     \<lparr> obj_name = ''elf-section'', uuid = uid, standalone = True,
       default_attributes_parameters = [],
       Attribute =
         [(''name'', VStr ''.bss''), (''type'', VStr ''NOBITS''),
          (''flag'', VStr ''WRITE''), (''size-in-bytes'', VInt 0)],
       references = [],
       priv_section = demo_bss, priv_data = [] \<rparr>"

text \<open>A section object as \<open>generate_attributes\<close> finds it, whose cached content
  differs from the content of its section.\<close>

definition demo_cached :: "real ELFSectionObject" where
  "demo_cached =
     \<lparr> obj_name = ''elf-section'', uuid = ''uuid-0'', standalone = True,
       default_attributes_parameters = [], Attribute = [], references = [],
       priv_section = demo_text, priv_data = [9] \<rparr>"

text \<open>The binary object expected for \<open>demo_binary\<close>.\<close>

definition demo_elf_object :: "bool \<Rightarrow> real ELFObject" where
  "demo_elf_object has_pydeep =
     \<lparr> obj_name = ''elf'', uuid = ''uuid-0'', standalone = True,
       default_attributes_parameters = [],
       Attribute =
         [(''type'', VStr ''EXECUTABLE''), (''entrypoint-address'', VInt 4198400),
          (''arch'', VStr ''x86_64''), (''os_abi'', VStr ''SYSTEMV''),
          (''number-sections'', VInt 2)],
       references =
         [(''uuid-1'', ''includes'', ''Section 0 of ELF''),
          (''uuid-2'', ''includes'', ''Section 1 of ELF'')],
       priv_elf = Some demo_binary,
       sections = [demo_text_object ''uuid-1'' has_pydeep, demo_bss_object ''uuid-2''] \<rparr>"

text \<open>
  A binary whose enums render with their module path, so that a rendering holds more
  than one separator, and the objects the module builds for it.
\<close>

definition demo_qualified_section :: "real Section" where
  "demo_qualified_section =
     \<lparr> section_name = ''.text'',
       section_type = ''lief._lief.ELF.SECTION_TYPES.PROGBITS'',
       section_flags_list = [''lief._lief.ELF.SECTION_FLAGS.ALLOC''],
       section_size = 0, section_entropy = 0, section_content = [] \<rparr>"

definition demo_qualified_binary :: "real Binary" where
  "demo_qualified_binary =
     \<lparr> binary_header =
         \<lparr> header_file_type = ''lief._lief.ELF.E_TYPE.EXECUTABLE'',
           header_machine_type = ''lief._lief.ELF.ARCH.x86_64'',
           header_identity_os_abi = ''lief._lief.ELF.OS_ABI.SYSTEMV'' \<rparr>,
       binary_entrypoint = 4198400,
       binary_sections = [demo_qualified_section] \<rparr>"

definition demo_qualified_section_object :: "real ELFSectionObject" where
  "demo_qualified_section_object =
     \<lparr> obj_name = ''elf-section'', uuid = ''uuid-1'', standalone = True,
       default_attributes_parameters = [],
       Attribute =
         [(''name'', VStr ''.text''), (''type'', VStr ''_lief''),
          (''flag'', VStr ''_lief''), (''size-in-bytes'', VInt 0)],
       references = [],
       priv_section = demo_qualified_section, priv_data = [] \<rparr>"

definition demo_qualified_elf_object :: "real ELFObject" where
  "demo_qualified_elf_object =
     \<lparr> obj_name = ''elf'', uuid = ''uuid-0'', standalone = True,
       default_attributes_parameters = [],
       Attribute =
         [(''type'', VStr ''_lief''), (''entrypoint-address'', VInt 4198400),
          (''arch'', VStr ''_lief''), (''os_abi'', VStr ''_lief''),
          (''number-sections'', VInt 1)],
       references = [(''uuid-1'', ''includes'', ''Section 0 of ELF'')],
       priv_elf = Some demo_qualified_binary,
       sections = [demo_qualified_section_object] \<rparr>"

section \<open>Properties\<close>

declare str_nat.simps [simp del]

subsection \<open>Splitting and enum labels\<close>


lemma split_chr_not_Nil: "split_chr c s \<noteq> []"
  by (induction s) (auto simp: Let_def)

lemma split_chr_no_sep: "p \<in> set (split_chr c s) \<Longrightarrow> c \<notin> set p"
proof (induction s arbitrary: p)
  case Nil
  then show ?case by simp
next
  case (Cons x xs)
  show ?case
  proof (cases "x = c")
    case True
    with Cons show ?thesis by auto
  next
    case False
    obtain q qs where r: "split_chr c xs = q # qs"
      using split_chr_not_Nil [of c xs] by (cases "split_chr c xs") auto
    with Cons.prems False have "p = x # q \<or> p \<in> set qs" by (auto simp: Let_def)
    with Cons.IH r False show ?thesis by auto
  qed
qed

lemma split_chr_join:
  "split_chr c s = p # ps \<Longrightarrow> s = p @ concat (map (\<lambda>q. c # q) ps)"
proof (induction s arbitrary: p ps)
  case Nil
  then show ?case by simp
next
  case (Cons x xs)
  obtain q qs where r: "split_chr c xs = q # qs"
    using split_chr_not_Nil [of c xs] by (cases "split_chr c xs") auto
  from Cons.IH [OF r] have xs: "xs = q @ concat (map (\<lambda>q. c # q) qs)" .
  show ?case
  proof (cases "x = c")
    case True
    with Cons.prems r have "p = []" "ps = q # qs" by auto
    with xs True show ?thesis by simp
  next
    case False
    with Cons.prems r have "p = x # q" "ps = qs" by (auto simp: Let_def)
    with xs show ?thesis by simp
  qed
qed

lemma split_chr_plain: "c \<notin> set p \<Longrightarrow> split_chr c p = [p]"
  by (induction p) (auto simp: Let_def)

lemma split_chr_append:
  "c \<notin> set p \<Longrightarrow> split_chr c (p @ c # rest) = p # split_chr c rest"
  by (induction p) (auto simp: Let_def)

lemma enum_label_no_sep: "enum_label r = Inr l \<Longrightarrow> CHR ''.'' \<notin> set l"
proof -
  assume a: "enum_label r = Inr l"
  then have "1 < length (split_chr CHR ''.'' r)" and "l = split_chr CHR ''.'' r ! 1"
    by (auto simp: enum_label_def py_index_def split: if_splits)
  then have "l \<in> set (split_chr CHR ''.'' r)" by (metis nth_mem)
  then show ?thesis by (rule split_chr_no_sep)
qed

lemma enum_label_shape:
  assumes "enum_label r = Inr l"
  shows "\<exists>ns rest. r = ns @ CHR ''.'' # l @ rest \<and> CHR ''.'' \<notin> set ns
           \<and> (rest = [] \<or> hd rest = CHR ''.'')"
proof -
  from assms have len: "1 < length (split_chr CHR ''.'' r)" and l: "l = split_chr CHR ''.'' r ! 1"
    by (auto simp: enum_label_def py_index_def split: if_splits)
  then obtain ns ps where sp: "split_chr CHR ''.'' r = ns # l # ps"
    by (cases "split_chr CHR ''.'' r"; cases "tl (split_chr CHR ''.'' r)") auto
  from split_chr_join [OF sp]
  have r: "r = ns @ CHR ''.'' # l @ concat (map (\<lambda>q. CHR ''.'' # q) ps)" by simp
  have "CHR ''.'' \<notin> set ns" using split_chr_no_sep [of ns "CHR ''.''" r] sp by simp
  moreover have "concat (map (\<lambda>q. CHR ''.'' # q) ps) = [] \<or> hd (concat (map (\<lambda>q. CHR ''.'' # q) ps)) = CHR ''.''"
    by (cases ps) auto
  ultimately show ?thesis using r by blast
qed

lemma enum_label_qualified:
  "CHR ''.'' \<notin> set ns \<Longrightarrow> CHR ''.'' \<notin> set l \<Longrightarrow> enum_label (ns @ CHR ''.'' # l) = Inr l"
  by (simp add: enum_label_def py_index_def split_chr_append split_chr_plain)

lemma enum_label_IndexError:
  "CHR ''.'' \<notin> set r \<Longrightarrow> enum_label r = Inl IndexError"
  by (simp add: enum_label_def py_index_def split_chr_plain)




lemma add_flags_Inr:
  "add_flags fs self = Inr self' \<Longrightarrow>
     \<exists>ls. map enum_label fs = map Inr ls \<and>
          self' = self\<lparr> Attribute := Attribute self @ map (\<lambda>l. (''flag'', VStr l)) ls \<rparr>"
proof (induction fs arbitrary: self)
  case Nil
  then show ?case by simp
next
  case (Cons f fs)
  from Cons.prems obtain l where l: "enum_label f = Inr l"
    and rest: "add_flags fs (add_attribute ''flag'' (VStr l) self) = Inr self'"
    by (auto split: sum.splits)
  from Cons.IH [OF rest] obtain ls where
    ls: "map enum_label fs = map Inr ls" and
    s: "self' = (add_attribute ''flag'' (VStr l) self)
          \<lparr> Attribute := Attribute (add_attribute ''flag'' (VStr l) self)
                           @ map (\<lambda>l. (''flag'', VStr l)) ls \<rparr>"
    by blast
  have "map enum_label (f # fs) = map Inr (l # ls)" using l ls by simp
  moreover have "self' = self\<lparr> Attribute := Attribute self @ map (\<lambda>l. (''flag'', VStr l)) (l # ls) \<rparr>"
    using s by (simp add: add_attribute_def)
  ultimately show ?case by blast
qed

lemma add_flags_labels:
  "map enum_label fs = map Inr ls \<Longrightarrow>
     add_flags fs self = Inr (self\<lparr> Attribute := Attribute self @ map (\<lambda>l. (''flag'', VStr l)) ls \<rparr>)"
proof (induction fs arbitrary: self ls)
  case Nil
  then show ?case by simp
next
  case (Cons f fs)
  then obtain l ls' where ls: "ls = l # ls'" and l: "enum_label f = Inr l"
    and rest: "map enum_label fs = map Inr ls'"
    by (cases ls) auto
  show ?case using Cons.IH [OF rest] l ls by (simp add: add_attribute_def)
qed


lemma add_ssdeep_Inr:
  "add_ssdeep w self = Inr s \<Longrightarrow>
     (case pydeep w of
        None \<Rightarrow> s = self
      | Some hash_buf \<Rightarrow> \<exists>h d. hash_buf (priv_data self) = Inr h \<and> decode w h = Inr d \<and>
            s = self\<lparr> Attribute := Attribute self @ [(''ssdeep'', VStr d)] \<rparr>)"
  by (auto simp: add_ssdeep_def add_attribute_def split: option.splits sum.splits)

lemma ELFSectionObject_generate_attributes_Inr:
  assumes "ELFSectionObject_generate_attributes w self = Inr s"
  shows "\<exists>t ls tail.
           enum_label (section_type (priv_section self)) = Inr t \<and>
           map enum_label (section_flags_list (priv_section self)) = map Inr ls \<and>
           s = self\<lparr> Attribute := Attribute self
                   @ [(''name'', VStr (section_name (priv_section self))), (''type'', VStr t)]
                   @ map (\<lambda>l. (''flag'', VStr l)) ls
                   @ [(''size-in-bytes'', VInt (section_size (priv_section self)))]
                   @ tail \<rparr> \<and>
           (if section_size (priv_section self) > 0
            then (case pydeep w of
                    None \<Rightarrow> tail = sized_attributes w self
                  | Some hash_buf \<Rightarrow> \<exists>h d. hash_buf (priv_data self) = Inr h \<and>
                      decode w h = Inr d \<and>
                      tail = sized_attributes w self @ [(''ssdeep'', VStr d)])
            else tail = [])"
proof -
  from assms obtain t self2 where
    t: "enum_label (section_type (priv_section self)) = Inr t" and
    fl: "add_flags (section_flags_list (priv_section self))
           (add_attribute ''type'' (VStr t)
              (add_attribute ''name'' (VStr (section_name (priv_section self))) self)) = Inr self2"
    by (auto simp: ELFSectionObject_generate_attributes_def Let_def split: sum.splits)
  from add_flags_Inr [OF fl] obtain ls where
    ls: "map enum_label (section_flags_list (priv_section self)) = map Inr ls" and
    self2: "self2 = self\<lparr> Attribute := Attribute self
                   @ [(''name'', VStr (section_name (priv_section self))), (''type'', VStr t)]
                   @ map (\<lambda>l. (''flag'', VStr l)) ls \<rparr>"
    by (auto simp: add_attribute_def)
  show ?thesis
  proof (cases "section_size (priv_section self) > 0")
    case False
    with assms t fl have "s = add_attribute ''size-in-bytes''
                              (VInt (section_size (priv_section self))) self2"
      by (simp add: ELFSectionObject_generate_attributes_def Let_def)
    with self2 False t ls show ?thesis
      by (simp add: add_attribute_def)
  next
    case True
    show ?thesis
    proof (cases "pydeep w")
      case None
      with assms t fl True have "s = self2\<lparr> Attribute := Attribute self2 @
           [(''size-in-bytes'', VInt (section_size (priv_section self)))] @ sized_attributes w self \<rparr>"
        by (simp add: ELFSectionObject_generate_attributes_def Let_def HAS_PYDEEP_def
              add_attribute_def sized_attributes_def)
      with self2 True t ls None show ?thesis
        by simp
    next
      case (Some hb)
      let ?s8 = "self2\<lparr> Attribute := Attribute self2 @
           [(''size-in-bytes'', VInt (section_size (priv_section self)))] @ sized_attributes w self \<rparr>"
      from assms t fl True Some have "add_ssdeep w ?s8 = Inr s"
        by (simp add: ELFSectionObject_generate_attributes_def Let_def HAS_PYDEEP_def
              add_attribute_def sized_attributes_def)
      from add_ssdeep_Inr [OF this] Some obtain h d where
        "hb (priv_data ?s8) = Inr h" "decode w h = Inr d"
        "s = ?s8\<lparr> Attribute := Attribute ?s8 @ [(''ssdeep'', VStr d)] \<rparr>"
        by auto
      with self2 True t ls Some show ?thesis
        by simp
    qed
  qed
qed



lemma ELFSectionObject_init_state:
  "snd (ELFSectionObject_init w sec kw st) = drawn 1 st"
  by (simp add: ELFSectionObject_init_def super_init_def drawn_def)

lemma ELFSectionObject_init_uuid:
  assumes "ELFSectionObject_init w sec kw st = (Inr s, st')"
  shows "uuid s = uuid4 w (uuids_drawn st) \<and> priv_section s = sec \<and> priv_data s = section_content sec"
proof -
  let ?self = "MISPObject.extend (fst (super_init w ''elf-section'' kw st))
                   (ELFSectionObject.fields sec (section_content sec))"
  from assms have "ELFSectionObject_generate_attributes w ?self = Inr s"
    by (simp add: ELFSectionObject_init_def split: prod.splits)
  from ELFSectionObject_generate_attributes_Inr [OF this]
  obtain atts where "s = ?self\<lparr> Attribute := atts \<rparr>" by blast
  then show ?thesis
    by (simp add: super_init_def MISPObject.defs ELFSectionObject.defs)
qed

lemma section_body_Inr:
  assumes "section_body w sec pos self st = (Inr self1, st1)"
  shows "\<exists>s. ELFSectionObject_init w sec (kwargs_of self) st = (Inr s, drawn 1 st) \<and>
             st1 = drawn 1 st \<and>
             self1 = self\<lparr> references := references self @ [(uuid s, ''includes'', section_label pos)],
                           sections := sections self @ [s] \<rparr>"
proof -
  obtain r st' where r: "ELFSectionObject_init w sec (kwargs_of self) st = (r, st')"
    by (cases "ELFSectionObject_init w sec (kwargs_of self) st")
  with ELFSectionObject_init_state [of w sec "kwargs_of self" st] have st': "st' = drawn 1 st" by simp
  from assms r obtain s where "r = Inr s" "st1 = st'"
     "self1 = self\<lparr> references := references self @ [(uuid s, ''includes'', section_label pos)],
                           sections := sections self @ [s] \<rparr>"
    by (cases r) (auto simp: section_body_def kwargs_of_def section_label_def add_reference_def Let_def)
  with r st' show ?thesis by blast
qed

lemma drawn_drawn: "drawn i (drawn k st) = drawn (k + i) st"
  by (simp add: drawn_def)

lemma section_loop_Inr:
  "section_loop w secs pos self st = (Inr obj, st') \<Longrightarrow>
     \<exists>ss. length ss = length (named secs) \<and>
          st' = drawn (length ss) st \<and>
          (\<forall>i < length ss.
             ELFSectionObject_init w (named secs ! i) (kwargs_of self) (drawn i st)
               = (Inr (ss ! i), drawn (Suc i) st)) \<and>
          obj = self\<lparr> references := references self
                     @ map (\<lambda>i. (uuid (ss ! i), ''includes'', section_label (pos + i)))
                         [0 ..< length ss],
                       sections := sections self @ ss \<rparr>"
proof (induction secs arbitrary: pos self st)
  case Nil
  then show ?case by (simp add: named_def drawn_def)
next
  case (Cons sec rest)
  show ?case
  proof (cases "section_name sec = []")
    case True
    with Cons.prems have "section_loop w rest pos self st = (Inr obj, st')" by simp
    from Cons.IH [OF this] True show ?thesis by (simp add: named_def)
  next
    case False
    obtain r st1 where b: "section_body w sec pos self st = (r, st1)"
      by (cases "section_body w sec pos self st")
    with Cons.prems False obtain self1 where r: "r = Inr self1"
      and loop: "section_loop w rest (pos + 1) self1 st1 = (Inr obj, st')"
      by (cases r) auto
    from section_body_Inr [OF b [unfolded r]] obtain s where
      s: "ELFSectionObject_init w sec (kwargs_of self) st = (Inr s, drawn 1 st)" and
      st1: "st1 = drawn 1 st" and
      self1: "self1 = self\<lparr> references := references self @ [(uuid s, ''includes'', section_label pos)],
                           sections := sections self @ [s] \<rparr>"
      by blast
    have kw: "kwargs_of self1 = kwargs_of self" using self1 by (simp add: kwargs_of_def)
    from Cons.IH [OF loop] obtain ss where
      len: "length ss = length (named rest)" and
      st': "st' = drawn (length ss) st1" and
      built: "\<forall>i < length ss.
             ELFSectionObject_init w (named rest ! i) (kwargs_of self1) (drawn i st1)
               = (Inr (ss ! i), drawn (Suc i) st1)" and
      obj: "obj = self1\<lparr> references := references self1
                     @ map (\<lambda>i. (uuid (ss ! i), ''includes'', section_label (pos + 1 + i)))
                         [0 ..< length ss],
                       sections := sections self1 @ ss \<rparr>"
      by blast
    have nm: "named (sec # rest) = sec # named rest" using False by (simp add: named_def)
    have 1: "length (s # ss) = length (named (sec # rest))" using len nm by simp
    have 2: "st' = drawn (length (s # ss)) st" using st' st1 by (simp add: drawn_drawn)
    have 3: "\<forall>i < length (s # ss).
             ELFSectionObject_init w (named (sec # rest) ! i) (kwargs_of self) (drawn i st)
               = (Inr ((s # ss) ! i), drawn (Suc i) st)"
    proof (intro allI impI)
      fix i assume i: "i < length (s # ss)"
      show "ELFSectionObject_init w (named (sec # rest) ! i) (kwargs_of self) (drawn i st)
               = (Inr ((s # ss) ! i), drawn (Suc i) st)"
      proof (cases i)
        case 0
        have "drawn 0 st = st" by (simp add: drawn_def)
        with 0 s nm show ?thesis by simp
      next
        case (Suc j)
        with i have "j < length ss" by simp
        with built have "ELFSectionObject_init w (named rest ! j) (kwargs_of self1) (drawn j st1)
               = (Inr (ss ! j), drawn (Suc j) st1)" by blast
        with Suc nm kw st1 show ?thesis by (simp add: drawn_drawn)
      qed
    qed
    have "map (\<lambda>i. (uuid ((s # ss) ! i), ''includes'', section_label (pos + i))) [0 ..< length (s # ss)]
          = (uuid s, ''includes'', section_label pos)
            # map (\<lambda>i. (uuid (ss ! i), ''includes'', section_label (pos + 1 + i))) [0 ..< length ss]"
      by (simp add: upt_conv_Cons map_Suc_upt [symmetric] del: upt_Suc)
    with obj self1 have 4: "obj = self\<lparr> references := references self
                     @ map (\<lambda>i. (uuid ((s # ss) ! i), ''includes'', section_label (pos + i)))
                         [0 ..< length (s # ss)],
                       sections := sections self @ (s # ss) \<rparr>"
      by simp
    from 1 2 3 4 show ?thesis by blast
  qed
qed


subsection \<open>The binary object\<close>

lemma ELFObject_generate_attributes_Inr:
  assumes "ELFObject_generate_attributes w self st = (Inr obj, st')"
  shows "\<exists>e ft mt abi ss.
           priv_elf self = Some e \<and>
           enum_label (header_file_type (binary_header e)) = Inr ft \<and>
           enum_label (header_machine_type (binary_header e)) = Inr mt \<and>
           enum_label (header_identity_os_abi (binary_header e)) = Inr abi \<and>
           length ss = length (named (binary_sections e)) \<and>
           st' = drawn (length ss) st \<and>
           (\<forall>i < length ss.
              ELFSectionObject_init w (named (binary_sections e) ! i) (kwargs_of self) (drawn i st)
                = (Inr (ss ! i), drawn (Suc i) st)) \<and>
           obj = self\<lparr> Attribute := Attribute self @
                     [(''type'', VStr ft), (''entrypoint-address'', VInt (binary_entrypoint e)),
                      (''arch'', VStr mt), (''os_abi'', VStr abi),
                      (''number-sections'', VInt (int (length ss)))],
                   references := references self
                     @ map (\<lambda>i. (uuid (ss ! i), ''includes'', section_label i)) [0 ..< length ss],
                   sections := ss \<rparr>"
proof -
  from assms obtain e where e: "priv_elf self = Some e"
    by (cases "priv_elf self") (auto simp: ELFObject_generate_attributes_def)
  from assms e obtain ft where ft: "enum_label (header_file_type (binary_header e)) = Inr ft"
    by (cases "enum_label (header_file_type (binary_header e))")
       (auto simp: ELFObject_generate_attributes_def)
  from assms e ft obtain mt where mt: "enum_label (header_machine_type (binary_header e)) = Inr mt"
    by (cases "enum_label (header_machine_type (binary_header e))")
       (auto simp: ELFObject_generate_attributes_def Let_def)
  from assms e ft mt obtain abi where abi: "enum_label (header_identity_os_abi (binary_header e)) = Inr abi"
    by (cases "enum_label (header_identity_os_abi (binary_header e))")
       (auto simp: ELFObject_generate_attributes_def Let_def)
  let ?self5 = "self\<lparr> Attribute := Attribute self @
                     [(''type'', VStr ft), (''entrypoint-address'', VInt (binary_entrypoint e)),
                      (''arch'', VStr mt), (''os_abi'', VStr abi)], sections := [] \<rparr>"
  have loop0: "section_loop w [] 0 ?self5 st = (Inr ?self5, st)" by simp
  from assms e ft mt abi obtain self6 where
    loop: "section_loop w (binary_sections e) 0 ?self5 st = (Inr self6, st')" and
    obj: "obj = add_attribute ''number-sections'' (VInt (int (length (sections self6)))) self6"
    using loop0
    by (cases "binary_sections e = []")
       (auto simp: ELFObject_generate_attributes_def Let_def add_attribute_def
             split: prod.splits sum.splits)
  have kw: "kwargs_of ?self5 = kwargs_of self" by (simp add: kwargs_of_def)
  from section_loop_Inr [OF loop] obtain ss where
    len: "length ss = length (named (binary_sections e))" and
    st': "st' = drawn (length ss) st" and
    built: "\<forall>i < length ss.
             ELFSectionObject_init w (named (binary_sections e) ! i) (kwargs_of self) (drawn i st)
               = (Inr (ss ! i), drawn (Suc i) st)" and
    self6: "self6 = ?self5\<lparr> references := references ?self5
                     @ map (\<lambda>i. (uuid (ss ! i), ''includes'', section_label (0 + i)))
                         [0 ..< length ss],
                       sections := sections ?self5 @ ss \<rparr>"
    unfolding kw by blast
  from obj self6 have
    "obj = self\<lparr> Attribute := Attribute self @
                     [(''type'', VStr ft), (''entrypoint-address'', VInt (binary_entrypoint e)),
                      (''arch'', VStr mt), (''os_abi'', VStr abi),
                      (''number-sections'', VInt (int (length ss)))],
                   references := references self
                     @ map (\<lambda>i. (uuid (ss ! i), ''includes'', section_label i)) [0 ..< length ss],
                   sections := ss \<rparr>"
    by (simp add: add_attribute_def)
  with e ft mt abi len st' built show ?thesis by blast
qed


subsection \<open>Running the model on the concrete inputs\<close>

lemmas demo_defs =
  demo_env_def demo_kwargs_def demo_state_def demo_text_def demo_bss_def demo_unnamed_def
  demo_binary_def demo_parse_def demo_hex_def demo_hash_buf_def demo_decode_def digit_chr_def


lemmas model_defs =
  ELFSectionObject_init_def super_init_def ELFSectionObject_generate_attributes_def
  enum_label_def py_index_def add_attribute_def add_ssdeep_def HAS_PYDEEP_def
  MISPObject.defs ELFSectionObject.defs Let_def drawn_def

lemma demo_text_built:
  "ELFSectionObject_init (demo_env hp) demo_text demo_kwargs st
     = (Inr (demo_text_object (''uuid-'' @ str_nat (uuids_drawn st)) hp), drawn 1 st)"
  by (simp add: model_defs demo_defs demo_text_object_def)

lemma demo_bss_built:
  "ELFSectionObject_init (demo_env hp) demo_bss demo_kwargs st
     = (Inr (demo_bss_object (''uuid-'' @ str_nat (uuids_drawn st))), drawn 1 st)"
  by (simp add: model_defs demo_defs demo_bss_object_def)


subsection \<open>Section objects\<close>

lemma filter_flag_attributes:
  "filter (\<lambda>a. fst a = rel) (map (\<lambda>l. (''flag'', VStr l)) ls)
     = (if rel = ''flag'' then map (\<lambda>l. (''flag'', VStr l)) ls else [])"
  by (induction ls) auto

lemma ELFSectionObject_init_Inr:
  assumes "ELFSectionObject_init w sec kw st = (Inr s, st')"
  shows "\<exists>t ls tail.
           enum_label (section_type sec) = Inr t \<and>
           map enum_label (section_flags_list sec) = map Inr ls \<and>
           Attribute s =
             [(''name'', VStr (section_name sec)), (''type'', VStr t)]
             @ map (\<lambda>l. (''flag'', VStr l)) ls
             @ [(''size-in-bytes'', VInt (section_size sec))]
             @ tail \<and>
           (if section_size sec > 0
            then (case pydeep w of
                    None \<Rightarrow> tail = sized_attributes w s
                  | Some hash_buf \<Rightarrow> \<exists>h d. hash_buf (section_content sec) = Inr h \<and>
                      decode w h = Inr d \<and>
                      tail = sized_attributes w s @ [(''ssdeep'', VStr d)])
            else tail = []) \<and>
           priv_section s = sec \<and> priv_data s = section_content sec \<and>
           uuid s = uuid4 w (uuids_drawn st) \<and> references s = [] \<and>
           st' = drawn 1 st"
proof -
  let ?self = "MISPObject.extend (fst (super_init w ''elf-section'' kw st))
                   (ELFSectionObject.fields sec (section_content sec))"
  have self: "priv_section ?self = sec" "priv_data ?self = section_content sec"
    "Attribute ?self = []" "references ?self = []" "uuid ?self = uuid4 w (uuids_drawn st)"
    by (simp_all add: super_init_def MISPObject.defs ELFSectionObject.defs)
  from assms have gen: "ELFSectionObject_generate_attributes w ?self = Inr s"
    and st': "st' = drawn 1 st"
    by (simp_all add: ELFSectionObject_init_def super_init_def drawn_def split: prod.splits)
  from ELFSectionObject_generate_attributes_Inr [OF gen] obtain t ls tail where
    t: "enum_label (section_type (priv_section ?self)) = Inr t" and
    ls: "map enum_label (section_flags_list (priv_section ?self)) = map Inr ls" and
    s: "s = ?self\<lparr> Attribute := Attribute ?self
                   @ [(''name'', VStr (section_name (priv_section ?self))), (''type'', VStr t)]
                   @ map (\<lambda>l. (''flag'', VStr l)) ls
                   @ [(''size-in-bytes'', VInt (section_size (priv_section ?self)))]
                   @ tail \<rparr>" and
    tail: "(if section_size (priv_section ?self) > 0
            then (case pydeep w of
                    None \<Rightarrow> tail = sized_attributes w ?self
                  | Some hash_buf \<Rightarrow> \<exists>h d. hash_buf (priv_data ?self) = Inr h \<and>
                      decode w h = Inr d \<and>
                      tail = sized_attributes w ?self @ [(''ssdeep'', VStr d)])
            else tail = [])"
    by blast
  have sz: "sized_attributes w s = sized_attributes w ?self"
    by (subst s) (simp add: sized_attributes_def)
  have fields: "priv_section s = sec" "priv_data s = section_content sec"
    "uuid s = uuid4 w (uuids_drawn st)" "references s = []"
    by (subst s, simp add: self)+
  have atts: "Attribute s =
             [(''name'', VStr (section_name sec)), (''type'', VStr t)]
             @ map (\<lambda>l. (''flag'', VStr l)) ls
             @ [(''size-in-bytes'', VInt (section_size sec))]
             @ tail"
    by (subst s) (simp add: self)
  from t ls tail have "enum_label (section_type sec) = Inr t"
    "map enum_label (section_flags_list sec) = map Inr ls"
    "(if section_size sec > 0
            then (case pydeep w of
                    None \<Rightarrow> tail = sized_attributes w s
                  | Some hash_buf \<Rightarrow> \<exists>h d. hash_buf (section_content sec) = Inr h \<and>
                      decode w h = Inr d \<and>
                      tail = sized_attributes w s @ [(''ssdeep'', VStr d)])
            else tail = [])"
    unfolding sz self by simp_all
  with atts fields st' show ?thesis by blast
qed

text \<open>
  C1. For a section with \<open>size > 0\<close>, the section object has exactly one \<open>md5\<close>, one
  \<open>sha1\<close>, one \<open>sha256\<close> and one \<open>sha512\<close> attribute, each the hexdigest of the
  content lief reports for the section; the digests have the lengths 32, 40, 64 and 128
  that hashlib gives them; the block holds no other attribute than \<open>entropy\<close>, these
  four, and \<open>ssdeep\<close> when pydeep is loaded. The content is read once, by the
  constructor, into \<open>self.__data\<close>, and \<open>generate_attributes\<close> takes all four
  digests of that cached value, whatever it holds.
\<close>

theorem section_digest_attributes:
  assumes "ELFSectionObject_init w sec kw st = (Inr s, st')"
    and "section_size sec > 0"
  shows "priv_data s = section_content sec \<and>
         get_attributes ''md5'' s = [VStr (md5 w (priv_data s))] \<and>
         get_attributes ''sha1'' s = [VStr (sha1 w (priv_data s))] \<and>
         get_attributes ''sha256'' s = [VStr (sha256 w (priv_data s))] \<and>
         get_attributes ''sha512'' s = [VStr (sha512 w (priv_data s))] \<and>
         (length (md5 w (section_content sec)) = 32 \<and>
          length (sha1 w (section_content sec)) = 40 \<and>
          length (sha256 w (section_content sec)) = 64 \<and>
          length (sha512 w (section_content sec)) = 128 \<longrightarrow>
          (\<exists>a b c d. get_attributes ''md5'' s = [VStr a] \<and> length a = 32 \<and>
                     get_attributes ''sha1'' s = [VStr b] \<and> length b = 40 \<and>
                     get_attributes ''sha256'' s = [VStr c] \<and> length c = 64 \<and>
                     get_attributes ''sha512'' s = [VStr d] \<and> length d = 128)) \<and>
         map fst (Attribute s) =
           [''name'', ''type''] @ replicate (length (section_flags_list sec)) ''flag''
           @ [''size-in-bytes'', ''entropy'', ''md5'', ''sha1'', ''sha256'', ''sha512'']
           @ (if HAS_PYDEEP w then [''ssdeep''] else []) \<and>
         (priv_section self = sec \<and> Attribute self = [] \<and>
          ELFSectionObject_generate_attributes w self = Inr s2 \<longrightarrow>
            get_attributes ''md5'' s2 = [VStr (md5 w (priv_data self))] \<and>
            get_attributes ''sha1'' s2 = [VStr (sha1 w (priv_data self))] \<and>
            get_attributes ''sha256'' s2 = [VStr (sha256 w (priv_data self))] \<and>
            get_attributes ''sha512'' s2 = [VStr (sha512 w (priv_data self))])"
proof -
  from ELFSectionObject_init_Inr [OF assms(1)] assms(2) obtain t ls tail where
    ls: "map enum_label (section_flags_list sec) = map Inr ls" and
    atts: "Attribute s =
             [(''name'', VStr (section_name sec)), (''type'', VStr t)]
             @ map (\<lambda>l. (''flag'', VStr l)) ls
             @ [(''size-in-bytes'', VInt (section_size sec))]
             @ tail" and
    tail: "case pydeep w of
             None \<Rightarrow> tail = sized_attributes w s
           | Some hash_buf \<Rightarrow> \<exists>d. tail = sized_attributes w s @ [(''ssdeep'', VStr d)]" and
    data: "priv_data s = section_content sec"
    by (auto split: option.splits)
  from ls have len: "length ls = length (section_flags_list sec)"
    by (metis length_map)
  have md5: "get_attributes ''md5'' s = [VStr (md5 w (priv_data s))]"
    using atts tail
    by (auto simp: get_attributes_def sized_attributes_def filter_flag_attributes
             split: option.splits)
  have sha1: "get_attributes ''sha1'' s = [VStr (sha1 w (priv_data s))]"
    using atts tail
    by (auto simp: get_attributes_def sized_attributes_def filter_flag_attributes
             split: option.splits)
  have sha256: "get_attributes ''sha256'' s = [VStr (sha256 w (priv_data s))]"
    using atts tail
    by (auto simp: get_attributes_def sized_attributes_def filter_flag_attributes
             split: option.splits)
  have sha512: "get_attributes ''sha512'' s = [VStr (sha512 w (priv_data s))]"
    using atts tail
    by (auto simp: get_attributes_def sized_attributes_def filter_flag_attributes
             split: option.splits)
  have names: "map fst (Attribute s) =
           [''name'', ''type''] @ replicate (length (section_flags_list sec)) ''flag''
           @ [''size-in-bytes'', ''entropy'', ''md5'', ''sha1'', ''sha256'', ''sha512'']
           @ (if HAS_PYDEEP w then [''ssdeep''] else [])"
    using atts tail len
    by (auto simp: sized_attributes_def HAS_PYDEEP_def o_def map_replicate_const
             split: option.splits)
  have cached: "get_attributes ''md5'' s2 = [VStr (md5 w (priv_data self))] \<and>
            get_attributes ''sha1'' s2 = [VStr (sha1 w (priv_data self))] \<and>
            get_attributes ''sha256'' s2 = [VStr (sha256 w (priv_data self))] \<and>
            get_attributes ''sha512'' s2 = [VStr (sha512 w (priv_data self))]"
    if self: "priv_section self = sec" "Attribute self = []"
      and gen: "ELFSectionObject_generate_attributes w self = Inr s2"
  proof -
    from ELFSectionObject_generate_attributes_Inr [OF gen] assms(2) self obtain t' ls' tail' where
      s2: "Attribute s2 =
             [(''name'', VStr (section_name sec)), (''type'', VStr t')]
             @ map (\<lambda>l. (''flag'', VStr l)) ls'
             @ [(''size-in-bytes'', VInt (section_size sec))]
             @ tail'" and
      tail': "case pydeep w of
             None \<Rightarrow> tail' = sized_attributes w self
           | Some hash_buf \<Rightarrow> \<exists>d. tail' = sized_attributes w self @ [(''ssdeep'', VStr d)]"
      by (auto split: option.splits)
    from s2 tail' show ?thesis
      by (auto simp: get_attributes_def sized_attributes_def filter_flag_attributes
               split: option.splits)
  qed
  from data md5 sha1 sha256 sha512 names cached show ?thesis by simp
qed

theorem section_digest_attributes_witness:
  "ELFSectionObject_init (demo_env True) demo_text demo_kwargs demo_state
     = (Inr (demo_text_object ''uuid-0'' True), drawn 1 demo_state) \<and>
   section_size demo_text > 0 \<and>
   length (md5 (demo_env True) (section_content demo_text)) = 32 \<and>
   length (sha1 (demo_env True) (section_content demo_text)) = 40 \<and>
   length (sha256 (demo_env True) (section_content demo_text)) = 64 \<and>
   length (sha512 (demo_env True) (section_content demo_text)) = 128 \<and>
   get_attributes ''md5'' (demo_text_object ''uuid-0'' True) = [VStr (demo_hex 32 [1, 2, 3, 4])] \<and>
   get_attributes ''sha1'' (demo_text_object ''uuid-0'' True) = [VStr (demo_hex 40 [1, 2, 3, 4])] \<and>
   get_attributes ''sha256'' (demo_text_object ''uuid-0'' True) = [VStr (demo_hex 64 [1, 2, 3, 4])] \<and>
   get_attributes ''sha512'' (demo_text_object ''uuid-0'' True) = [VStr (demo_hex 128 [1, 2, 3, 4])] \<and>
   map fst (Attribute (demo_text_object ''uuid-0'' True)) =
     [''name'', ''type'', ''flag'', ''flag'', ''size-in-bytes'', ''entropy'',
      ''md5'', ''sha1'', ''sha256'', ''sha512'', ''ssdeep''] \<and>
   priv_section demo_cached = demo_text \<and> Attribute demo_cached = [] \<and>
   priv_data demo_cached = [9] \<and>
   (\<exists>s2. ELFSectionObject_generate_attributes (demo_env True) demo_cached = Inr s2 \<and>
         get_attributes ''md5'' s2 = [VStr (demo_hex 32 [9])] \<and>
         get_attributes ''sha1'' s2 = [VStr (demo_hex 40 [9])] \<and>
         get_attributes ''sha256'' s2 = [VStr (demo_hex 64 [9])] \<and>
         get_attributes ''sha512'' s2 = [VStr (demo_hex 128 [9])])"
proof -
  have built: "ELFSectionObject_init (demo_env True) demo_text demo_kwargs demo_state
     = (Inr (demo_text_object ''uuid-0'' True), drawn 1 demo_state)"
    using demo_text_built [of True demo_state] by (simp add: demo_state_def str_nat.simps digit_chr_def)
  have size: "section_size demo_text > 0" by (simp add: demo_text_def)
  have lens: "length (md5 (demo_env True) (section_content demo_text)) = 32"
    "length (sha1 (demo_env True) (section_content demo_text)) = 40"
    "length (sha256 (demo_env True) (section_content demo_text)) = 64"
    "length (sha512 (demo_env True) (section_content demo_text)) = 128"
    by (simp_all add: demo_env_def demo_hex_def)
  have cached: "priv_section demo_cached = demo_text" "Attribute demo_cached = []"
    "priv_data demo_cached = [9]"
    by (simp_all add: demo_cached_def)
  obtain s2 where gen: "ELFSectionObject_generate_attributes (demo_env True) demo_cached = Inr s2"
    by (simp add: model_defs demo_defs demo_cached_def)
  from section_digest_attributes [OF built size, of demo_cached s2] cached gen
  have "get_attributes ''md5'' s2 = [VStr (demo_hex 32 [9])] \<and>
         get_attributes ''sha1'' s2 = [VStr (demo_hex 40 [9])] \<and>
         get_attributes ''sha256'' s2 = [VStr (demo_hex 64 [9])] \<and>
         get_attributes ''sha512'' s2 = [VStr (demo_hex 128 [9])]"
    by (simp add: demo_env_def)
  with gen have ex: "\<exists>s2. ELFSectionObject_generate_attributes (demo_env True) demo_cached = Inr s2 \<and>
         get_attributes ''md5'' s2 = [VStr (demo_hex 32 [9])] \<and>
         get_attributes ''sha1'' s2 = [VStr (demo_hex 40 [9])] \<and>
         get_attributes ''sha256'' s2 = [VStr (demo_hex 64 [9])] \<and>
         get_attributes ''sha512'' s2 = [VStr (demo_hex 128 [9])]"
    by blast
  from section_digest_attributes [OF built size] built size lens
  have "get_attributes ''md5'' (demo_text_object ''uuid-0'' True) = [VStr (demo_hex 32 [1, 2, 3, 4])] \<and>
   get_attributes ''sha1'' (demo_text_object ''uuid-0'' True) = [VStr (demo_hex 40 [1, 2, 3, 4])] \<and>
   get_attributes ''sha256'' (demo_text_object ''uuid-0'' True) = [VStr (demo_hex 64 [1, 2, 3, 4])] \<and>
   get_attributes ''sha512'' (demo_text_object ''uuid-0'' True) = [VStr (demo_hex 128 [1, 2, 3, 4])] \<and>
   map fst (Attribute (demo_text_object ''uuid-0'' True)) =
     [''name'', ''type'', ''flag'', ''flag'', ''size-in-bytes'', ''entropy'',
      ''md5'', ''sha1'', ''sha256'', ''sha512'', ''ssdeep'']"
    by (simp add: demo_env_def demo_text_object_def demo_text_def HAS_PYDEEP_def)
  with built size lens cached ex show ?thesis by blast
qed

text \<open>
  C2. For a section with \<open>size = 0\<close>, the section object has no \<open>entropy\<close>,
  \<open>md5\<close>, \<open>sha1\<close>, \<open>sha256\<close>, \<open>sha512\<close> or \<open>ssdeep\<close> attribute; it has its
  \<open>name\<close>, its \<open>type\<close>, one \<open>flag\<close> per flag and \<open>size-in-bytes\<close>, and nothing
  else.
\<close>

theorem empty_section_attributes:
  assumes "ELFSectionObject_init w sec kw st = (Inr s, st')"
    and "section_size sec = 0"
  shows "get_attributes ''entropy'' s = [] \<and>
         get_attributes ''md5'' s = [] \<and>
         get_attributes ''sha1'' s = [] \<and>
         get_attributes ''sha256'' s = [] \<and>
         get_attributes ''sha512'' s = [] \<and>
         get_attributes ''ssdeep'' s = [] \<and>
         get_attributes ''name'' s = [VStr (section_name sec)] \<and>
         (\<exists>t ls. enum_label (section_type sec) = Inr t \<and>
                 map enum_label (section_flags_list sec) = map Inr ls \<and>
                 get_attributes ''type'' s = [VStr t] \<and>
                 get_attributes ''flag'' s = map VStr ls) \<and>
         get_attributes ''size-in-bytes'' s = [VInt 0] \<and>
         map fst (Attribute s) =
           [''name'', ''type''] @ replicate (length (section_flags_list sec)) ''flag''
           @ [''size-in-bytes'']"
proof -
  from ELFSectionObject_init_Inr [OF assms(1)] assms(2) obtain t ls where
    t: "enum_label (section_type sec) = Inr t" and
    ls: "map enum_label (section_flags_list sec) = map Inr ls" and
    atts: "Attribute s =
             [(''name'', VStr (section_name sec)), (''type'', VStr t)]
             @ map (\<lambda>l. (''flag'', VStr l)) ls
             @ [(''size-in-bytes'', VInt 0)]"
    by auto
  from ls have len: "length ls = length (section_flags_list sec)"
    by (metis length_map)
  have absent: "get_attributes ''entropy'' s = []" "get_attributes ''md5'' s = []"
    "get_attributes ''sha1'' s = []" "get_attributes ''sha256'' s = []"
    "get_attributes ''sha512'' s = []" "get_attributes ''ssdeep'' s = []"
    using atts by (simp_all add: get_attributes_def filter_flag_attributes)
  have present: "get_attributes ''name'' s = [VStr (section_name sec)]"
    "get_attributes ''type'' s = [VStr t]"
    "get_attributes ''flag'' s = map VStr ls"
    "get_attributes ''size-in-bytes'' s = [VInt 0]"
    using atts by (simp_all add: get_attributes_def filter_flag_attributes o_def)
  have names: "map fst (Attribute s) =
           [''name'', ''type''] @ replicate (length (section_flags_list sec)) ''flag''
           @ [''size-in-bytes'']"
    using atts len by (simp add: o_def map_replicate_const)
  from absent present names t ls show ?thesis by blast
qed

theorem empty_section_attributes_witness:
  "ELFSectionObject_init (demo_env True) demo_bss demo_kwargs demo_state
     = (Inr (demo_bss_object ''uuid-0''), drawn 1 demo_state) \<and>
   section_size demo_bss = 0 \<and>
   get_attributes ''entropy'' (demo_bss_object ''uuid-0'') = [] \<and>
   get_attributes ''md5'' (demo_bss_object ''uuid-0'') = [] \<and>
   get_attributes ''sha1'' (demo_bss_object ''uuid-0'') = [] \<and>
   get_attributes ''sha256'' (demo_bss_object ''uuid-0'') = [] \<and>
   get_attributes ''sha512'' (demo_bss_object ''uuid-0'') = [] \<and>
   get_attributes ''ssdeep'' (demo_bss_object ''uuid-0'') = [] \<and>
   get_attributes ''name'' (demo_bss_object ''uuid-0'') = [VStr ''.bss''] \<and>
   get_attributes ''size-in-bytes'' (demo_bss_object ''uuid-0'') = [VInt 0] \<and>
   map fst (Attribute (demo_bss_object ''uuid-0'')) = [''name'', ''type'', ''flag'', ''size-in-bytes'']"
proof -
  have built: "ELFSectionObject_init (demo_env True) demo_bss demo_kwargs demo_state
     = (Inr (demo_bss_object ''uuid-0''), drawn 1 demo_state)"
    using demo_bss_built [of True demo_state] by (simp add: demo_state_def str_nat.simps digit_chr_def)
  have size: "section_size demo_bss = 0" by (simp add: demo_bss_def)
  from empty_section_attributes [OF built size] built size show ?thesis
    by (simp add: demo_bss_def)
qed

lemma ELFSectionObject_generate_attributes_total:
  assumes "enum_label (section_type (priv_section self)) = Inr t"
    and "map enum_label (section_flags_list (priv_section self)) = map Inr ls"
    and "\<not> HAS_PYDEEP w"
  shows "\<exists>s. ELFSectionObject_generate_attributes w self = Inr s"
  using assms(1,3)
  by (simp add: ELFSectionObject_generate_attributes_def Let_def add_flags_labels [OF assms(2)])

text \<open>
  C8. For a section with \<open>size > 0\<close>: a section object that was built has an
  \<open>ssdeep\<close> attribute exactly when pydeep was imported; it then has one, the decoded
  \<open>pydeep.hash_buf\<close> of the section's content. Without pydeep the attribute is left
  out and nothing is raised on its account: the section object is built whenever the
  type and the flags have labels.
\<close>

theorem ssdeep_attribute:
  assumes "section_size sec > 0"
  shows "(\<forall>s st'. ELFSectionObject_init w sec kw st = (Inr s, st') \<longrightarrow>
            (get_attributes ''ssdeep'' s \<noteq> [] \<longleftrightarrow> HAS_PYDEEP w) \<and>
            (case pydeep w of
               None \<Rightarrow> get_attributes ''ssdeep'' s = []
             | Some hash_buf \<Rightarrow>
                 \<exists>h d. hash_buf (section_content sec) = Inr h \<and> decode w h = Inr d \<and>
                       get_attributes ''ssdeep'' s = [VStr d])) \<and>
         (\<not> HAS_PYDEEP w \<and> enum_label (section_type sec) = Inr t \<and>
          map enum_label (section_flags_list sec) = map Inr ls \<longrightarrow>
            (\<exists>s. ELFSectionObject_init w sec kw st = (Inr s, drawn 1 st) \<and>
                 get_attributes ''ssdeep'' s = []))"
proof -
  have built: "(get_attributes ''ssdeep'' s \<noteq> [] \<longleftrightarrow> HAS_PYDEEP w) \<and>
            (case pydeep w of
               None \<Rightarrow> get_attributes ''ssdeep'' s = []
             | Some hash_buf \<Rightarrow>
                 \<exists>h d. hash_buf (section_content sec) = Inr h \<and> decode w h = Inr d \<and>
                       get_attributes ''ssdeep'' s = [VStr d])"
    if init: "ELFSectionObject_init w sec kw st = (Inr s, st')" for s st'
  proof -
    from ELFSectionObject_init_Inr [OF init] assms obtain t ls tail where
      atts: "Attribute s =
             [(''name'', VStr (section_name sec)), (''type'', VStr t)]
             @ map (\<lambda>l. (''flag'', VStr l)) ls
             @ [(''size-in-bytes'', VInt (section_size sec))]
             @ tail" and
      tail: "case pydeep w of
               None \<Rightarrow> tail = sized_attributes w s
             | Some hash_buf \<Rightarrow> \<exists>h d. hash_buf (section_content sec) = Inr h \<and>
                      decode w h = Inr d \<and>
                      tail = sized_attributes w s @ [(''ssdeep'', VStr d)]"
      by auto
    show ?thesis
    proof (cases "pydeep w")
      case None
      with tail atts have "get_attributes ''ssdeep'' s = []"
        by (simp add: get_attributes_def sized_attributes_def filter_flag_attributes)
      with None show ?thesis by (simp add: HAS_PYDEEP_def)
    next
      case (Some hb)
      with tail obtain h d where hd: "hb (section_content sec) = Inr h" "decode w h = Inr d"
        and t: "tail = sized_attributes w s @ [(''ssdeep'', VStr d)]"
        by auto
      from t atts have "get_attributes ''ssdeep'' s = [VStr d]"
        by (simp add: get_attributes_def sized_attributes_def filter_flag_attributes)
      with Some hd show ?thesis by (simp add: HAS_PYDEEP_def)
    qed
  qed
  have total: "\<exists>s. ELFSectionObject_init w sec kw st = (Inr s, drawn 1 st) \<and>
                 get_attributes ''ssdeep'' s = []"
    if no: "\<not> HAS_PYDEEP w" and t: "enum_label (section_type sec) = Inr t"
      and ls: "map enum_label (section_flags_list sec) = map Inr ls"
  proof -
    from no have none: "pydeep w = None" by (simp add: HAS_PYDEEP_def split: option.splits)
    let ?self = "MISPObject.extend (fst (super_init w ''elf-section'' kw st))
                   (ELFSectionObject.fields sec (section_content sec))"
    have "priv_section ?self = sec"
      by (simp add: MISPObject.defs ELFSectionObject.defs)
    with t ls no obtain s where "ELFSectionObject_generate_attributes w ?self = Inr s"
      using ELFSectionObject_generate_attributes_total [of ?self t ls w] by auto
    then have s: "ELFSectionObject_init w sec kw st = (Inr s, drawn 1 st)"
      by (simp add: ELFSectionObject_init_def super_init_def drawn_def split: prod.splits)
    from built [OF s] none have "get_attributes ''ssdeep'' s = []" by simp
    with s show ?thesis by blast
  qed
  from built total show ?thesis by blast
qed

theorem ssdeep_attribute_witness:
  "section_size demo_text > 0 \<and>
   ELFSectionObject_init (demo_env True) demo_text demo_kwargs demo_state
     = (Inr (demo_text_object ''uuid-0'' True), drawn 1 demo_state) \<and>
   HAS_PYDEEP (demo_env True) \<and>
   get_attributes ''ssdeep'' (demo_text_object ''uuid-0'' True) = [VStr ''4::''] \<and>
   \<not> HAS_PYDEEP (demo_env False) \<and>
   enum_label (section_type demo_text) = Inr ''PROGBITS'' \<and>
   map enum_label (section_flags_list demo_text) = map Inr [''ALLOC'', ''EXECINSTR''] \<and>
   ELFSectionObject_init (demo_env False) demo_text demo_kwargs demo_state
     = (Inr (demo_text_object ''uuid-0'' False), drawn 1 demo_state) \<and>
   get_attributes ''ssdeep'' (demo_text_object ''uuid-0'' False) = []"
proof -
  have size: "section_size demo_text > 0" by (simp add: demo_text_def)
  have built: "ELFSectionObject_init (demo_env hp) demo_text demo_kwargs demo_state
     = (Inr (demo_text_object ''uuid-0'' hp), drawn 1 demo_state)" for hp
    using demo_text_built [of hp demo_state] by (simp add: demo_state_def str_nat.simps digit_chr_def)
  have no: "\<not> HAS_PYDEEP (demo_env False)" by (simp add: HAS_PYDEEP_def demo_env_def)
  have t: "enum_label (section_type demo_text) = Inr ''PROGBITS''"
    by (simp add: demo_text_def enum_label_def py_index_def)
  have ls: "map enum_label (section_flags_list demo_text) = map Inr [''ALLOC'', ''EXECINSTR'']"
    by (simp add: demo_text_def enum_label_def py_index_def)
  from ssdeep_attribute [OF size, of "demo_env True" demo_kwargs demo_state] built [of True]
  have yes: "HAS_PYDEEP (demo_env True) \<and>
             get_attributes ''ssdeep'' (demo_text_object ''uuid-0'' True) = [VStr ''4::'']"
    by (simp add: demo_env_def demo_hash_buf_def demo_decode_def demo_text_def HAS_PYDEEP_def)
  from ssdeep_attribute [OF size, of "demo_env False" demo_kwargs demo_state "''PROGBITS''"
         "[''ALLOC'', ''EXECINSTR'']"] no t ls built [of False]
  have "get_attributes ''ssdeep'' (demo_text_object ''uuid-0'' False) = []"
    by simp
  with size built yes no t ls show ?thesis by simp
qed

subsection \<open>Binary objects\<close>

lemma kwargs_of_new:
  "kwargs_of (MISPObject.extend (fst (super_init w nm kw st)) ext) = kw"
  by (simp add: kwargs_of_def super_init_def MISPObject.defs)

lemma priv_elf_new:
  "priv_elf (MISPObject.extend base (ELFObject.fields e ss)) = e"
  by (simp add: MISPObject.defs ELFObject.defs)

lemma ELFObject_init_eq:
  "ELFObject_init w parsed filepath pseudofile kw st =
     (case resolve_input w parsed filepath pseudofile of
        Inl err \<Rightarrow> (Inl err, entered w st)
      | Inr e \<Rightarrow>
          ELFObject_generate_attributes w
            (MISPObject.extend (fst (super_init w ''elf'' kw st)) (ELFObject.fields e []))
            (entered w st))"
  by (simp add: ELFObject_init_def super_init_def entered_def drawn_def
        MISPObject.defs ELFObject.defs split: sum.splits)

lemma ELFObject_init_Inr:
  assumes "ELFObject_init w parsed filepath pseudofile kw st = (Inr obj, st')"
  shows "\<exists>e ft mt abi.
           resolve_input w parsed filepath pseudofile = Inr (Some e) \<and>
           priv_elf obj = Some e \<and>
           enum_label (header_file_type (binary_header e)) = Inr ft \<and>
           enum_label (header_machine_type (binary_header e)) = Inr mt \<and>
           enum_label (header_identity_os_abi (binary_header e)) = Inr abi \<and>
           Attribute obj =
             [(''type'', VStr ft), (''entrypoint-address'', VInt (binary_entrypoint e)),
              (''arch'', VStr mt), (''os_abi'', VStr abi),
              (''number-sections'', VInt (int (length (sections obj))))] \<and>
           length (sections obj) = length (named (binary_sections e)) \<and>
           (\<forall>i < length (sections obj).
              ELFSectionObject_init w (named (binary_sections e) ! i) kw (drawn i (entered w st))
                = (Inr (sections obj ! i), drawn (Suc i) (entered w st))) \<and>
           references obj =
             map (\<lambda>i. (uuid (sections obj ! i), ''includes'', section_label i))
               [0 ..< length (sections obj)] \<and>
           st' = drawn (length (sections obj)) (entered w st) \<and>
           uuid obj = uuid4 w (uuids_drawn st)"
proof -
  from assms obtain eo where res: "resolve_input w parsed filepath pseudofile = Inr eo"
    by (cases "resolve_input w parsed filepath pseudofile") (auto simp: ELFObject_init_eq)
  let ?self = "MISPObject.extend (fst (super_init w ''elf'' kw st)) (ELFObject.fields eo [])"
  from assms res have gen: "ELFObject_generate_attributes w ?self (entered w st) = (Inr obj, st')"
    by (simp add: ELFObject_init_eq)
  have self: "priv_elf ?self = eo" "Attribute ?self = []" "references ?self = []"
    "uuid ?self = uuid4 w (uuids_drawn st)"
    by (simp_all add: super_init_def MISPObject.defs ELFObject.defs)
  from ELFObject_generate_attributes_Inr [OF gen] obtain e ft mt abi ss where
    e: "priv_elf ?self = Some e" and
    lab: "enum_label (header_file_type (binary_header e)) = Inr ft"
         "enum_label (header_machine_type (binary_header e)) = Inr mt"
         "enum_label (header_identity_os_abi (binary_header e)) = Inr abi" and
    len: "length ss = length (named (binary_sections e))" and
    st': "st' = drawn (length ss) (entered w st)" and
    built: "\<forall>i < length ss.
              ELFSectionObject_init w (named (binary_sections e) ! i) (kwargs_of ?self)
                  (drawn i (entered w st))
                = (Inr (ss ! i), drawn (Suc i) (entered w st))" and
    obj: "obj = ?self\<lparr> Attribute := Attribute ?self @
                     [(''type'', VStr ft), (''entrypoint-address'', VInt (binary_entrypoint e)),
                      (''arch'', VStr mt), (''os_abi'', VStr abi),
                      (''number-sections'', VInt (int (length ss)))],
                   references := references ?self
                     @ map (\<lambda>i. (uuid (ss ! i), ''includes'', section_label i)) [0 ..< length ss],
                   sections := ss \<rparr>"
    by blast
  from e self have eo: "eo = Some e" by simp
  have ss: "sections obj = ss" by (subst obj) simp
  have 1: "priv_elf obj = Some e" by (subst obj) (simp add: e)
  have 2: "Attribute obj =
             [(''type'', VStr ft), (''entrypoint-address'', VInt (binary_entrypoint e)),
              (''arch'', VStr mt), (''os_abi'', VStr abi),
              (''number-sections'', VInt (int (length (sections obj))))]"
    unfolding ss by (subst obj) (simp add: self)
  have 3: "references obj =
             map (\<lambda>i. (uuid (sections obj ! i), ''includes'', section_label i))
               [0 ..< length (sections obj)]"
    unfolding ss by (subst obj) (simp add: self)
  have 4: "uuid obj = uuid4 w (uuids_drawn st)" by (subst obj) (simp add: self)
  have 5: "resolve_input w parsed filepath pseudofile = Inr (Some e)"
    using res eo by simp
  have 6: "length (sections obj) = length (named (binary_sections e))"
    using len ss by simp
  have 7: "\<forall>i < length (sections obj).
              ELFSectionObject_init w (named (binary_sections e) ! i) kw (drawn i (entered w st))
                = (Inr (sections obj ! i), drawn (Suc i) (entered w st))"
    using built by (simp add: ss kwargs_of_new)
  have 8: "st' = drawn (length (sections obj)) (entered w st)"
    using st' ss by simp
  show ?thesis
    using 5 1 lab 2 6 7 3 8 4 by (intro exI [of _ e] exI [of _ ft] exI [of _ mt] exI [of _ abi]) simp
qed

lemma built_sections:
  assumes "\<forall>i < length ss.
              ELFSectionObject_init w (secs ! i) kw (f i) = (Inr (ss ! i), g i)"
    and "length ss = length secs"
  shows "map priv_section ss = secs"
proof (rule nth_equalityI)
  show "length (map priv_section ss) = length secs" using assms(2) by simp
next
  fix i assume "i < length (map priv_section ss)"
  then have i: "i < length ss" by simp
  with assms(1) have "ELFSectionObject_init w (secs ! i) kw (f i) = (Inr (ss ! i), g i)" by blast
  from ELFSectionObject_init_Inr [OF this] have "priv_section (ss ! i) = secs ! i" by blast
  with i show "map priv_section ss ! i = secs ! i" by simp
qed

lemma kwargs_of_update:
  "kwargs_of (self\<lparr> references := r \<rparr>) = kwargs_of self"
  "kwargs_of (self\<lparr> Attribute := a \<rparr>) = kwargs_of self"
  "kwargs_of (self'\<lparr> sections := ss \<rparr>) = kwargs_of self'"
  by (simp_all add: kwargs_of_def)

lemma demo_section_names:
  "section_name demo_unnamed = []" "section_name demo_text \<noteq> []" "section_name demo_bss \<noteq> []"
  by (simp_all add: demo_unnamed_def demo_text_def demo_bss_def)

lemma demo_object_uuid:
  "uuid (demo_text_object u hp) = u" "uuid (demo_bss_object u) = u"
  "priv_section (demo_text_object u hp) = demo_text" "priv_section (demo_bss_object u) = demo_bss"
  by (simp_all add: demo_text_object_def demo_bss_object_def)

lemma demo_loop:
  assumes "kwargs_of self = demo_kwargs" and "uuids_drawn st = 1"
  shows "section_loop (demo_env hp) [demo_unnamed, demo_text, demo_bss] 0 self st
     = (Inr (self\<lparr> references := references self @
                     [(''uuid-1'', ''includes'', ''Section 0 of ELF''),
                      (''uuid-2'', ''includes'', ''Section 1 of ELF'')],
                   sections := sections self @
                     [demo_text_object ''uuid-1'' hp, demo_bss_object ''uuid-2''] \<rparr>),
        drawn 2 st)"
  using assms
  by (simp add: demo_section_names section_body_def demo_text_built demo_bss_built
        kwargs_of_update add_reference_def Let_def section_label_def str_nat.simps
        digit_chr_def drawn_def demo_object_uuid)

lemma demo_elf_built:
  assumes "resolve_input (demo_env hp) parsed filepath pseudofile = Inr (Some demo_binary)"
  shows "ELFObject_init (demo_env hp) parsed filepath pseudofile demo_kwargs demo_state
     = (Inr (demo_elf_object hp), drawn 2 (entered (demo_env hp) demo_state))"
proof -
  let ?self = "MISPObject.extend (fst (super_init (demo_env hp) ''elf'' demo_kwargs demo_state))
                 (ELFObject.fields (Some demo_binary) [])"
  have st: "uuids_drawn (entered (demo_env hp) demo_state) = 1"
    by (simp add: entered_def drawn_def demo_state_def)
  have secs: "binary_sections demo_binary = [demo_unnamed, demo_text, demo_bss]"
    by (simp add: demo_binary_def)
  have labels: "enum_label (header_file_type (binary_header demo_binary)) = Inr ''EXECUTABLE''"
    "enum_label (header_machine_type (binary_header demo_binary)) = Inr ''x86_64''"
    "enum_label (header_identity_os_abi (binary_header demo_binary)) = Inr ''SYSTEMV''"
    by (simp_all add: demo_binary_def enum_label_def py_index_def)
  have "ELFObject_generate_attributes (demo_env hp) ?self (entered (demo_env hp) demo_state)
          = (Inr (demo_elf_object hp), drawn 2 (entered (demo_env hp) demo_state))"
    unfolding ELFObject_generate_attributes_def
    apply (simp add: priv_elf_new labels secs Let_def add_attribute_def demo_loop kwargs_of_update kwargs_of_new st
                del: section_loop.simps)
    apply (simp add: demo_elf_object_def super_init_def MISPObject.defs ELFObject.defs
          demo_env_def demo_kwargs_def demo_state_def demo_binary_def str_nat.simps digit_chr_def)
    done
  then show ?thesis by (simp add: ELFObject_init_eq assms)
qed


text \<open>
  C3. On every binary object that was built, the \<open>number-sections\<close> attribute occurs
  once and is the number of section objects in \<open>self.sections\<close>; these are built from
  exactly the sections with a non-empty name, in order; and the references of the
  binary object point to these section objects and to nothing else, so no unnamed
  section is referenced.
\<close>

theorem number_sections_counts_named:
  assumes "ELFObject_init w parsed filepath pseudofile kw st = (Inr obj, st')"
  shows "\<exists>e. priv_elf obj = Some e \<and>
           get_attributes ''number-sections'' obj = [VInt (int (length (sections obj)))] \<and>
           length (sections obj)
             = length (filter (\<lambda>sec. section_name sec \<noteq> []) (binary_sections e)) \<and>
           map priv_section (sections obj)
             = filter (\<lambda>sec. section_name sec \<noteq> []) (binary_sections e) \<and>
           map fst (references obj) = map uuid (sections obj) \<and>
           list_all (\<lambda>s. section_name (priv_section s) \<noteq> []) (sections obj)"
proof -
  from ELFObject_init_Inr [OF assms] obtain e ft mt abi where
    e: "priv_elf obj = Some e" and
    atts: "Attribute obj =
             [(''type'', VStr ft), (''entrypoint-address'', VInt (binary_entrypoint e)),
              (''arch'', VStr mt), (''os_abi'', VStr abi),
              (''number-sections'', VInt (int (length (sections obj))))]" and
    len: "length (sections obj) = length (named (binary_sections e))" and
    built: "\<forall>i < length (sections obj).
              ELFSectionObject_init w (named (binary_sections e) ! i) kw (drawn i (entered w st))
                = (Inr (sections obj ! i), drawn (Suc i) (entered w st))" and
    refs: "references obj =
             map (\<lambda>i. (uuid (sections obj ! i), ''includes'', section_label i))
               [0 ..< length (sections obj)]"
    by blast
  have count: "get_attributes ''number-sections'' obj = [VInt (int (length (sections obj)))]"
    using atts by (simp add: get_attributes_def)
  have secs: "map priv_section (sections obj) = named (binary_sections e)"
    using built len by (rule built_sections)
  have targets: "map fst (references obj) = map uuid (sections obj)"
    unfolding refs by (intro nth_equalityI) simp_all
  have "set (map priv_section (sections obj)) \<subseteq> {sec. section_name sec \<noteq> []}"
    unfolding secs named_def by auto
  then have all_named: "list_all (\<lambda>s. section_name (priv_section s) \<noteq> []) (sections obj)"
    by (auto simp: list_all_iff)
  from e count len secs targets all_named show ?thesis
    unfolding named_def by blast
qed

theorem number_sections_counts_named_witness:
  "ELFObject_init (demo_env True) PNone None (PBytes [127, 69, 76, 70]) demo_kwargs demo_state
     = (Inr (demo_elf_object True), drawn 2 (entered (demo_env True) demo_state)) \<and>
   priv_elf (demo_elf_object True) = Some demo_binary \<and>
   binary_sections demo_binary = [demo_unnamed, demo_text, demo_bss] \<and>
   get_attributes ''number-sections'' (demo_elf_object True) = [VInt 2] \<and>
   map priv_section (sections (demo_elf_object True)) = [demo_text, demo_bss] \<and>
   map fst (references (demo_elf_object True)) = [''uuid-1'', ''uuid-2'']"
proof -
  have built: "ELFObject_init (demo_env True) PNone None (PBytes [127, 69, 76, 70])
                 demo_kwargs demo_state
     = (Inr (demo_elf_object True), drawn 2 (entered (demo_env True) demo_state))"
    by (rule demo_elf_built) (simp add: resolve_input_def demo_env_def demo_parse_def)
  have e: "priv_elf (demo_elf_object True) = Some demo_binary"
    by (simp add: demo_elf_object_def)
  have secs: "binary_sections demo_binary = [demo_unnamed, demo_text, demo_bss]"
    by (simp add: demo_binary_def)
  from number_sections_counts_named [OF built] e secs built show ?thesis
    by (simp add: demo_section_names demo_elf_object_def demo_object_uuid)
qed


text \<open>
  C7. On every binary object that was built: the section objects are those of the
  sections with a non-empty name, in lief's order; the i-th of them (counting from 0,
  retained sections only) is what \<open>ELFSectionObject.__init__\<close> returns for that
  section, with the keyword arguments of the binary object, and the position \<open>i\<close> is no
  argument of it; all of them exist when the constructor returns; and the references
  of the binary object are, in the same order, one \<open>includes\<close> reference to each
  section object, labelled \<open>Section i of ELF\<close>.
\<close>

theorem section_enumeration:
  assumes "ELFObject_init w parsed filepath pseudofile kw st = (Inr obj, st')"
  shows "\<exists>e. priv_elf obj = Some e \<and>
           map priv_section (sections obj)
             = filter (\<lambda>sec. section_name sec \<noteq> []) (binary_sections e) \<and>
           (\<forall>i < length (sections obj).
              ELFSectionObject_init w
                  (filter (\<lambda>sec. section_name sec \<noteq> []) (binary_sections e) ! i) kw
                  (drawn i (entered w st))
                = (Inr (sections obj ! i), drawn (Suc i) (entered w st))) \<and>
           references obj =
             map (\<lambda>i. (uuid (sections obj ! i), ''includes'',
                        ''Section '' @ str_nat i @ '' of ELF''))
               [0 ..< length (sections obj)] \<and>
           length (references obj) = length (sections obj)"
proof -
  from ELFObject_init_Inr [OF assms] obtain e where
    e: "priv_elf obj = Some e" and
    len: "length (sections obj) = length (named (binary_sections e))" and
    built: "\<forall>i < length (sections obj).
              ELFSectionObject_init w (named (binary_sections e) ! i) kw (drawn i (entered w st))
                = (Inr (sections obj ! i), drawn (Suc i) (entered w st))" and
    refs: "references obj =
             map (\<lambda>i. (uuid (sections obj ! i), ''includes'', section_label i))
               [0 ..< length (sections obj)]"
    by blast
  have secs: "map priv_section (sections obj) = named (binary_sections e)"
    using built len by (rule built_sections)
  have "length (references obj) = length (sections obj)"
    unfolding refs by simp
  with e secs built refs show ?thesis
    unfolding named_def section_label_def by blast
qed

theorem section_enumeration_witness:
  "ELFObject_init (demo_env True) PNone None (PBytes [127, 69, 76, 70]) demo_kwargs demo_state
     = (Inr (demo_elf_object True), drawn 2 (entered (demo_env True) demo_state)) \<and>
   priv_elf (demo_elf_object True) = Some demo_binary \<and>
   binary_sections demo_binary = [demo_unnamed, demo_text, demo_bss] \<and>
   sections (demo_elf_object True) = [demo_text_object ''uuid-1'' True, demo_bss_object ''uuid-2''] \<and>
   map priv_section (sections (demo_elf_object True)) = [demo_text, demo_bss] \<and>
   references (demo_elf_object True) =
     [(''uuid-1'', ''includes'', ''Section 0 of ELF''),
      (''uuid-2'', ''includes'', ''Section 1 of ELF'')]"
proof -
  have built: "ELFObject_init (demo_env True) PNone None (PBytes [127, 69, 76, 70])
                 demo_kwargs demo_state
     = (Inr (demo_elf_object True), drawn 2 (entered (demo_env True) demo_state))"
    by (rule demo_elf_built) (simp add: resolve_input_def demo_env_def demo_parse_def)
  have e: "priv_elf (demo_elf_object True) = Some demo_binary"
    by (simp add: demo_elf_object_def)
  have secs: "binary_sections demo_binary = [demo_unnamed, demo_text, demo_bss]"
    by (simp add: demo_binary_def)
  have objs: "sections (demo_elf_object True)
                = [demo_text_object ''uuid-1'' True, demo_bss_object ''uuid-2'']"
    by (simp add: demo_elf_object_def)
  have refs: "references (demo_elf_object True) =
     [(''uuid-1'', ''includes'', ''Section 0 of ELF''),
      (''uuid-2'', ''includes'', ''Section 1 of ELF'')]"
    by (simp add: demo_elf_object_def)
  from section_enumeration [OF built] e secs built objs refs show ?thesis
    by (simp add: demo_section_names demo_object_uuid str_nat.simps digit_chr_def)
qed

subsection \<open>Enum labels\<close>

lemma takeWhile_up_to:
  "c \<notin> set xs \<Longrightarrow> takeWhile (\<lambda>x. x \<noteq> c) (xs @ c # ys) = xs"
  by (induction xs) auto

lemma spec_bare_label_qualified:
  "CHR ''.'' \<notin> set l \<Longrightarrow> spec_bare_label (ns @ CHR ''.'' # l) = l"
  by (simp add: spec_bare_label_def takeWhile_up_to)

lemma one_separator_label:
  "CHR ''.'' \<notin> set ns \<Longrightarrow> CHR ''.'' \<notin> set l \<Longrightarrow>
     enum_label (ns @ CHR ''.'' # l) = Inr (spec_bare_label (ns @ CHR ''.'' # l))"
  by (simp add: enum_label_qualified spec_bare_label_qualified)

lemma enum_label_second_component:
  "CHR ''.'' \<notin> set ns \<Longrightarrow> CHR ''.'' \<notin> set l \<Longrightarrow>
     enum_label (ns @ CHR ''.'' # l @ CHR ''.'' # rest) = Inr l"
  by (simp add: enum_label_def py_index_def split_chr_append)

lemma binary_enum_labels:
  assumes "ELFObject_init w parsed filepath pseudofile kw st = (Inr obj, st')"
  shows "\<exists>e ft mt abi. priv_elf obj = Some e \<and>
           get_attributes ''type'' obj = [VStr ft] \<and>
           enum_label (header_file_type (binary_header e)) = Inr ft \<and>
           get_attributes ''arch'' obj = [VStr mt] \<and>
           enum_label (header_machine_type (binary_header e)) = Inr mt \<and>
           get_attributes ''os_abi'' obj = [VStr abi] \<and>
           enum_label (header_identity_os_abi (binary_header e)) = Inr abi"
proof -
  from ELFObject_init_Inr [OF assms] obtain e ft mt abi where
    e: "priv_elf obj = Some e" and
    lab: "enum_label (header_file_type (binary_header e)) = Inr ft"
         "enum_label (header_machine_type (binary_header e)) = Inr mt"
         "enum_label (header_identity_os_abi (binary_header e)) = Inr abi" and
    atts: "Attribute obj =
             [(''type'', VStr ft), (''entrypoint-address'', VInt (binary_entrypoint e)),
              (''arch'', VStr mt), (''os_abi'', VStr abi),
              (''number-sections'', VInt (int (length (sections obj))))]"
    by blast
  from atts have "get_attributes ''type'' obj = [VStr ft]" "get_attributes ''arch'' obj = [VStr mt]"
    "get_attributes ''os_abi'' obj = [VStr abi]"
    by (simp_all add: get_attributes_def)
  with e lab show ?thesis by blast
qed

lemma demo_qualified_section_built:
  "ELFSectionObject_init (demo_env hp) demo_qualified_section demo_kwargs st
     = (Inr (demo_qualified_section_object\<lparr> uuid := ''uuid-'' @ str_nat (uuids_drawn st) \<rparr>),
        drawn 1 st)"
  by (simp add: model_defs demo_defs demo_qualified_section_def
        demo_qualified_section_object_def)

lemma demo_qualified_loop:
  assumes "kwargs_of self = demo_kwargs" and "uuids_drawn st = 1"
  shows "section_loop (demo_env hp) [demo_qualified_section] 0 self st
     = (Inr (self\<lparr> references := references self @
                     [(''uuid-1'', ''includes'', ''Section 0 of ELF'')],
                   sections := sections self @ [demo_qualified_section_object] \<rparr>),
        drawn 1 st)"
proof -
  have nm: "section_name demo_qualified_section \<noteq> []"
    by (simp add: demo_qualified_section_def)
  have obj: "demo_qualified_section_object\<lparr> uuid := ''uuid-1'' \<rparr> = demo_qualified_section_object"
    "uuid demo_qualified_section_object = ''uuid-1''"
    by (simp_all add: demo_qualified_section_object_def)
  show ?thesis
    using assms
    by (simp add: nm section_body_def demo_qualified_section_built kwargs_of_update
          add_reference_def Let_def section_label_def str_nat.simps digit_chr_def obj)
qed

lemma demo_qualified_built:
  "ELFObject_init (demo_env True) (PBinary demo_qualified_binary) None PNone
       demo_kwargs demo_state
     = (Inr demo_qualified_elf_object, drawn 1 (entered (demo_env True) demo_state))"
proof -
  let ?self = "MISPObject.extend (fst (super_init (demo_env True) ''elf'' demo_kwargs demo_state))
                 (ELFObject.fields (Some demo_qualified_binary) [])"
  have st: "uuids_drawn (entered (demo_env True) demo_state) = 1"
    by (simp add: entered_def drawn_def demo_state_def)
  have secs: "binary_sections demo_qualified_binary = [demo_qualified_section]"
    by (simp add: demo_qualified_binary_def)
  have labels:
    "enum_label (header_file_type (binary_header demo_qualified_binary)) = Inr ''_lief''"
    "enum_label (header_machine_type (binary_header demo_qualified_binary)) = Inr ''_lief''"
    "enum_label (header_identity_os_abi (binary_header demo_qualified_binary)) = Inr ''_lief''"
    by (simp_all add: demo_qualified_binary_def enum_label_def py_index_def)
  have "ELFObject_generate_attributes (demo_env True) ?self (entered (demo_env True) demo_state)
          = (Inr demo_qualified_elf_object, drawn 1 (entered (demo_env True) demo_state))"
    unfolding ELFObject_generate_attributes_def
    apply (simp add: priv_elf_new labels secs Let_def add_attribute_def demo_qualified_loop
                     kwargs_of_update kwargs_of_new st
                del: section_loop.simps)
    apply (simp add: demo_qualified_elf_object_def super_init_def MISPObject.defs
          ELFObject.defs demo_env_def demo_kwargs_def demo_state_def demo_qualified_binary_def
          str_nat.simps digit_chr_def)
    done
  then show ?thesis by (simp add: ELFObject_init_eq resolve_input_def)
qed

text \<open>
  C6. The module emits \<open>str(x).split('.')[1]\<close>, the second dot-separated component
  of lief's rendering, and not what follows the last separator. For a rendering with
  one separator the two agree (\<open>ELF.EXE\<close> gives \<open>EXE\<close>). For renderings that carry
  the module path they differ: every enum label of the objects built for
  \<open>demo_qualified_binary\<close> is \<open>_lief\<close>, where the bare labels are \<open>EXECUTABLE\<close>,
  \<open>x86_64\<close>, \<open>SYSTEMV\<close>, \<open>PROGBITS\<close> and \<open>ALLOC\<close>.
\<close>

theorem module_qualified_labels_not_bare:
  "ELFObject_init (demo_env True) (PBinary demo_qualified_binary) None PNone
       demo_kwargs demo_state
     = (Inr demo_qualified_elf_object, drawn 1 (entered (demo_env True) demo_state)) \<and>
   get_attributes ''type'' demo_qualified_elf_object = [VStr ''_lief''] \<and>
   spec_bare_label (header_file_type (binary_header demo_qualified_binary)) = ''EXECUTABLE'' \<and>
   get_attributes ''arch'' demo_qualified_elf_object = [VStr ''_lief''] \<and>
   spec_bare_label (header_machine_type (binary_header demo_qualified_binary)) = ''x86_64'' \<and>
   get_attributes ''os_abi'' demo_qualified_elf_object = [VStr ''_lief''] \<and>
   spec_bare_label (header_identity_os_abi (binary_header demo_qualified_binary)) = ''SYSTEMV'' \<and>
   sections demo_qualified_elf_object = [demo_qualified_section_object] \<and>
   get_attributes ''type'' demo_qualified_section_object = [VStr ''_lief''] \<and>
   spec_bare_label (section_type demo_qualified_section) = ''PROGBITS'' \<and>
   get_attributes ''flag'' demo_qualified_section_object = [VStr ''_lief''] \<and>
   map spec_bare_label (section_flags_list demo_qualified_section) = [''ALLOC''] \<and>
   enum_label ''ELF.EXE'' = Inr ''EXE'' \<and> spec_bare_label ''ELF.EXE'' = ''EXE''"
proof -
  have atts: "get_attributes ''type'' demo_qualified_elf_object = [VStr ''_lief'']"
    "get_attributes ''arch'' demo_qualified_elf_object = [VStr ''_lief'']"
    "get_attributes ''os_abi'' demo_qualified_elf_object = [VStr ''_lief'']"
    "sections demo_qualified_elf_object = [demo_qualified_section_object]"
    "get_attributes ''type'' demo_qualified_section_object = [VStr ''_lief'']"
    "get_attributes ''flag'' demo_qualified_section_object = [VStr ''_lief'']"
    by (simp_all add: get_attributes_def demo_qualified_elf_object_def
          demo_qualified_section_object_def)
  have bare:
    "spec_bare_label (header_file_type (binary_header demo_qualified_binary)) = ''EXECUTABLE''"
    "spec_bare_label (header_machine_type (binary_header demo_qualified_binary)) = ''x86_64''"
    "spec_bare_label (header_identity_os_abi (binary_header demo_qualified_binary)) = ''SYSTEMV''"
    "spec_bare_label (section_type demo_qualified_section) = ''PROGBITS''"
    "map spec_bare_label (section_flags_list demo_qualified_section) = [''ALLOC'']"
    "spec_bare_label ''ELF.EXE'' = ''EXE''"
    by (simp_all add: spec_bare_label_def demo_qualified_binary_def demo_qualified_section_def)
  have exe: "enum_label ''ELF.EXE'' = Inr ''EXE''"
    by (simp add: enum_label_def py_index_def)
  from demo_qualified_built atts bare exe show ?thesis by simp
qed

subsection \<open>Input resolution\<close>

lemma ELFObject_init_unset:
  assumes "resolve_input w parsed filepath pseudofile = Inr None"
  shows "ELFObject_init w parsed filepath pseudofile kw st
           = (Inl (AttributeError ''_ELFObject__elf''), entered w st)"
  using assms
  by (simp add: ELFObject_init_eq ELFObject_generate_attributes_def priv_elf_new)

lemma unparsable_buffer_raises:
  assumes "truthy pseudofile"
    and "pseudofile = PBytesIO b \<and> lief_ELF_parse w (ParseObj b) = Inr None
         \<or> pseudofile = PBytes b
             \<and> lief_ELF_parse w (ParseRaw (map (\<lambda>x. PInt (uint x)) b)) = Inr None
         \<or> pseudofile = PList l \<and> lief_ELF_parse w (ParseRaw l) = Inr None"
  shows "ELFObject_init w parsed filepath pseudofile kw st
           = (Inl (InvalidMISPObject (Lit ''Unable to parse pseudofile'')), entered w st)"
  using assms by (auto simp: ELFObject_init_eq resolve_input_def)

lemma unparsable_path_falls_through:
  assumes "\<not> truthy pseudofile" and "truthy_filepath (Some path)"
    and "lief_ELF_parse w (ParseFile path) = Inr None"
  shows "ELFObject_init w parsed (Some path) pseudofile kw st
           = (Inl (AttributeError ''_ELFObject__elf''), entered w st)"
  using assms by (intro ELFObject_init_unset) (simp add: resolve_input_def)

text \<open>
  C5. A file path that lief cannot parse: \<open>if e := lief.ELF.parse(filepath)\<close> has no
  \<open>else\<close>, so nothing is raised there, \<open>self.__elf\<close> stays unset and
  \<open>generate_attributes\<close> fails with an AttributeError. The buffer branch raises
  \<open>InvalidMISPObject('Unable to parse pseudofile')\<close> for the same parser result.
\<close>

theorem unparsable_path_attribute_error:
  "lief_ELF_parse (demo_env True) (ParseFile (Str ''b.out'')) = Inr None \<and>
   ELFObject_init (demo_env True) PNone (Some (Str ''b.out'')) PNone demo_kwargs demo_state
     = (Inl (AttributeError ''_ELFObject__elf''), entered (demo_env True) demo_state) \<and>
   \<not> is_InvalidMISPObject
       (fst (ELFObject_init (demo_env True) PNone (Some (Str ''b.out'')) PNone
               demo_kwargs demo_state)) \<and>
   lief_ELF_parse (demo_env True) (ParseRaw [PInt 0]) = Inr None \<and>
   ELFObject_init (demo_env True) PNone None (PBytes [0]) demo_kwargs demo_state
     = (Inl (InvalidMISPObject (Lit ''Unable to parse pseudofile'')),
        entered (demo_env True) demo_state)"
proof -
  have none: "lief_ELF_parse (demo_env True) (ParseFile (Str ''b.out'')) = Inr None"
    "lief_ELF_parse (demo_env True) (ParseRaw [PInt 0]) = Inr None"
    by (simp_all add: demo_env_def demo_parse_def)
  have path: "ELFObject_init (demo_env True) PNone (Some (Str ''b.out'')) PNone
                demo_kwargs demo_state
     = (Inl (AttributeError ''_ELFObject__elf''), entered (demo_env True) demo_state)"
    using none by (intro unparsable_path_falls_through) simp_all
  have buffer: "ELFObject_init (demo_env True) PNone None (PBytes [0]) demo_kwargs demo_state
     = (Inl (InvalidMISPObject (Lit ''Unable to parse pseudofile'')),
        entered (demo_env True) demo_state)"
    using none by (intro unparsable_buffer_raises [where b = "[0]"]) simp_all
  from none path buffer show ?thesis by simp
qed

text \<open>
  C9. When none of the three inputs is truthy (none given, or each given one is
  \<open>None\<close>, empty or zero), no branch of the input resolution is taken: nothing is
  raised there, \<open>self.__elf\<close> is never assigned, and the constructor fails in
  \<open>generate_attributes\<close> with the AttributeError of the missing attribute.
\<close>

theorem no_input_attribute_error:
  assumes "\<not> truthy pseudofile" and "\<not> truthy_filepath filepath" and "\<not> truthy parsed"
  shows "resolve_input w parsed filepath pseudofile = Inr None \<and>
         ELFObject_init w parsed filepath pseudofile kw st
           = (Inl (AttributeError ''_ELFObject__elf''), entered w st) \<and>
         \<not> is_InvalidMISPObject (fst (ELFObject_init w parsed filepath pseudofile kw st))"
proof -
  from assms have res: "resolve_input w parsed filepath pseudofile = Inr None"
    by (simp add: resolve_input_def)
  from ELFObject_init_unset [OF res] res show ?thesis by simp
qed

theorem no_input_attribute_error_witness:
  "\<not> truthy (PNone :: real Binary pyval) \<and> \<not> truthy_filepath None \<and>
   \<not> truthy (PBytes [] :: real Binary pyval) \<and> \<not> truthy (PList [] :: real Binary pyval) \<and>
   \<not> truthy (PInt 0 :: real Binary pyval) \<and> \<not> truthy_filepath (Some (Str [])) \<and>
   ELFObject_init (demo_env True) PNone None PNone demo_kwargs demo_state
     = (Inl (AttributeError ''_ELFObject__elf''), entered (demo_env True) demo_state) \<and>
   ELFObject_init (demo_env True) PNone None (PBytes []) demo_kwargs demo_state
     = (Inl (AttributeError ''_ELFObject__elf''), entered (demo_env True) demo_state) \<and>
   ELFObject_init (demo_env True) PNone None (PList []) demo_kwargs demo_state
     = (Inl (AttributeError ''_ELFObject__elf''), entered (demo_env True) demo_state) \<and>
   ELFObject_init (demo_env True) PNone None (PInt 0) demo_kwargs demo_state
     = (Inl (AttributeError ''_ELFObject__elf''), entered (demo_env True) demo_state) \<and>
   ELFObject_init (demo_env True) (PInt 0) (Some (Str [])) (PBytes []) demo_kwargs demo_state
     = (Inl (AttributeError ''_ELFObject__elf''), entered (demo_env True) demo_state)"
  using no_input_attribute_error [where w = "demo_env True" and parsed = PNone
          and filepath = None and pseudofile = PNone and kw = demo_kwargs and st = demo_state]
        no_input_attribute_error [where w = "demo_env True" and parsed = PNone
          and filepath = None and pseudofile = "PBytes []" and kw = demo_kwargs and st = demo_state]
        no_input_attribute_error [where w = "demo_env True" and parsed = PNone
          and filepath = None and pseudofile = "PList []" and kw = demo_kwargs and st = demo_state]
        no_input_attribute_error [where w = "demo_env True" and parsed = PNone
          and filepath = None and pseudofile = "PInt 0" and kw = demo_kwargs and st = demo_state]
        no_input_attribute_error [where w = "demo_env True" and parsed = "PInt 0"
          and filepath = "Some (Str [])" and pseudofile = "PBytes []"
          and kw = demo_kwargs and st = demo_state]
  by simp

text \<open>
  C10. The inputs are tried in the order raw buffer, file path, parsed binary, and the
  first truthy one decides: the constructor behaves as if it had been given that input
  alone, whatever the other two are, and giving several inputs is no error.
\<close>

theorem input_precedence:
  "(truthy pseudofile \<longrightarrow>
      ELFObject_init w parsed filepath pseudofile kw st
        = ELFObject_init w PNone None pseudofile kw st) \<and>
   (\<not> truthy pseudofile \<and> truthy_filepath filepath \<longrightarrow>
      ELFObject_init w parsed filepath pseudofile kw st
        = ELFObject_init w PNone filepath PNone kw st) \<and>
   (\<not> truthy pseudofile \<and> \<not> truthy_filepath filepath \<and> truthy parsed \<longrightarrow>
      ELFObject_init w parsed filepath pseudofile kw st
        = ELFObject_init w parsed None PNone kw st)"
  by (simp add: ELFObject_init_eq resolve_input_def)

theorem input_precedence_witness:
  "truthy (PBytes [127, 69, 76, 70] :: real Binary pyval) \<and>
   truthy_filepath (Some (Str ''b.out'')) \<and> truthy (PInt 5 :: real Binary pyval) \<and>
   ELFObject_init (demo_env True) (PInt 5) (Some (Str ''b.out'')) (PBytes [127, 69, 76, 70])
       demo_kwargs demo_state
     = (Inr (demo_elf_object True), drawn 2 (entered (demo_env True) demo_state)) \<and>
   \<not> truthy (PBytes [] :: real Binary pyval) \<and> truthy_filepath (Some (Str ''a.out'')) \<and>
   ELFObject_init (demo_env True) (PInt 5) (Some (Str ''a.out'')) (PBytes [])
       demo_kwargs demo_state
     = (Inr (demo_elf_object True), drawn 2 (entered (demo_env True) demo_state)) \<and>
   \<not> truthy_filepath (Some (Str [])) \<and> truthy (PBinary demo_binary) \<and>
   ELFObject_init (demo_env True) (PBinary demo_binary) (Some (Str [])) (PBytes [])
       demo_kwargs demo_state
     = (Inr (demo_elf_object True), drawn 2 (entered (demo_env True) demo_state))"
proof -
  have alone: "ELFObject_init (demo_env True) PNone None (PBytes [127, 69, 76, 70])
       demo_kwargs demo_state
     = (Inr (demo_elf_object True), drawn 2 (entered (demo_env True) demo_state))"
    "ELFObject_init (demo_env True) PNone (Some (Str ''a.out'')) PNone demo_kwargs demo_state
     = (Inr (demo_elf_object True), drawn 2 (entered (demo_env True) demo_state))"
    "ELFObject_init (demo_env True) (PBinary demo_binary) None PNone demo_kwargs demo_state
     = (Inr (demo_elf_object True), drawn 2 (entered (demo_env True) demo_state))"
    by (rule demo_elf_built, simp add: resolve_input_def demo_env_def demo_parse_def)+
  from input_precedence [where w = "demo_env True" and parsed = "PInt 5"
         and filepath = "Some (Str ''b.out'')" and pseudofile = "PBytes [127, 69, 76, 70]"
         and kw = demo_kwargs and st = demo_state]
       input_precedence [where w = "demo_env True" and parsed = "PInt 5"
         and filepath = "Some (Str ''a.out'')" and pseudofile = "PBytes []"
         and kw = demo_kwargs and st = demo_state]
       input_precedence [where w = "demo_env True" and parsed = "PBinary demo_binary"
         and filepath = "Some (Str [])" and pseudofile = "PBytes []"
         and kw = demo_kwargs and st = demo_state]
       alone
  show ?thesis by simp
qed

text \<open>
  C4, as the module has it. A truthy raw buffer that is neither a \<open>BytesIO\<close>, a
  \<open>bytes\<close> nor a \<open>list\<close> makes the constructor raise \<open>InvalidMISPObject\<close> (\<open>Pseudo
  file can be BytesIO or bytes got ...\<close>), whatever the other inputs are; a truthy
  \<open>parsed\<close> that is no \<open>lief.ELF.Binary\<close>, given without a truthy raw buffer or file
  path, makes it raise \<open>InvalidMISPObject\<close> (\<open>Not a lief.ELF.Binary: ...\<close>). In both
  cases no object is returned. The test on the raw buffer is on its class only: a
  truthy \<open>list\<close> is handed to \<open>lief.ELF.parse\<close> whatever it holds, and the outcome
  is the parser's (its exception, \<open>Unable to parse pseudofile\<close> for no result, or
  the object of the binary it returns).
\<close>

theorem invalid_input_rejected:
  "(truthy pseudofile \<and> type_of pseudofile \<notin> {T_BytesIO, T_bytes, T_list} \<longrightarrow>
      ELFObject_init w parsed filepath pseudofile kw st
        = (Inl (InvalidMISPObject
                  (Fmt ''Pseudo file can be BytesIO or bytes got '' (type_of pseudofile))),
           entered w st)) \<and>
   (\<not> truthy pseudofile \<and> \<not> truthy_filepath filepath \<and> truthy parsed \<and>
    type_of parsed \<noteq> T_ELF_Binary \<longrightarrow>
      ELFObject_init w parsed filepath pseudofile kw st
        = (Inl (InvalidMISPObject (Fmt ''Not a lief.ELF.Binary: '' (type_of parsed))),
           entered w st)) \<and>
   (truthy pseudofile \<and> pseudofile = PList l \<longrightarrow>
      ELFObject_init w parsed filepath pseudofile kw st
        = (case lief_ELF_parse w (ParseRaw l) of
             Inl err \<Rightarrow> (Inl err, entered w st)
           | Inr None \<Rightarrow>
               (Inl (InvalidMISPObject (Lit ''Unable to parse pseudofile'')), entered w st)
           | Inr (Some e) \<Rightarrow> ELFObject_init w (PBinary e) None PNone kw st))"
proof (intro conjI impI)
  assume "truthy pseudofile \<and> type_of pseudofile \<notin> {T_BytesIO, T_bytes, T_list}"
  then show "ELFObject_init w parsed filepath pseudofile kw st
        = (Inl (InvalidMISPObject
                  (Fmt ''Pseudo file can be BytesIO or bytes got '' (type_of pseudofile))),
           entered w st)"
    by (cases pseudofile) (simp_all add: ELFObject_init_eq resolve_input_def)
next
  assume "\<not> truthy pseudofile \<and> \<not> truthy_filepath filepath \<and> truthy parsed \<and>
    type_of parsed \<noteq> T_ELF_Binary"
  then show "ELFObject_init w parsed filepath pseudofile kw st
        = (Inl (InvalidMISPObject (Fmt ''Not a lief.ELF.Binary: '' (type_of parsed))),
           entered w st)"
    by (cases parsed) (simp_all add: ELFObject_init_eq resolve_input_def)
next
  assume "truthy pseudofile \<and> pseudofile = PList l"
  then show "ELFObject_init w parsed filepath pseudofile kw st
        = (case lief_ELF_parse w (ParseRaw l) of
             Inl err \<Rightarrow> (Inl err, entered w st)
           | Inr None \<Rightarrow>
               (Inl (InvalidMISPObject (Lit ''Unable to parse pseudofile'')), entered w st)
           | Inr (Some e) \<Rightarrow> ELFObject_init w (PBinary e) None PNone kw st)"
    by (auto simp: ELFObject_init_eq resolve_input_def split: sum.splits option.splits)
qed

theorem invalid_input_rejected_witness:
  "truthy (PInt 7 :: real Binary pyval) \<and>
   type_of (PInt 7 :: real Binary pyval) \<notin> {T_BytesIO, T_bytes, T_list} \<and>
   ELFObject_init (demo_env True) PNone None (PInt 7) demo_kwargs demo_state
     = (Inl (InvalidMISPObject (Fmt ''Pseudo file can be BytesIO or bytes got '' T_int)),
        entered (demo_env True) demo_state) \<and>
   \<not> truthy (PNone :: real Binary pyval) \<and> \<not> truthy_filepath None \<and>
   truthy (PStr ''a.out'' :: real Binary pyval) \<and>
   type_of (PStr ''a.out'' :: real Binary pyval) \<noteq> T_ELF_Binary \<and>
   ELFObject_init (demo_env True) (PStr ''a.out'') None PNone demo_kwargs demo_state
     = (Inl (InvalidMISPObject (Fmt ''Not a lief.ELF.Binary: '' T_str)),
        entered (demo_env True) demo_state) \<and>
   truthy (PList [PStr ''a.out''] :: real Binary pyval) \<and>
   lief_ELF_parse (demo_env True) (ParseRaw [PStr ''a.out'']) = Inl TypeError \<and>
   ELFObject_init (demo_env True) PNone None (PList [PStr ''a.out'']) demo_kwargs demo_state
     = (Inl TypeError, entered (demo_env True) demo_state) \<and>
   lief_ELF_parse (demo_env True) (ParseRaw [PInt 0]) = Inr None \<and>
   ELFObject_init (demo_env True) PNone None (PList [PInt 0]) demo_kwargs demo_state
     = (Inl (InvalidMISPObject (Lit ''Unable to parse pseudofile'')),
        entered (demo_env True) demo_state)"
proof -
  have parse: "lief_ELF_parse (demo_env True) (ParseRaw [PStr ''a.out'']) = Inl TypeError"
    "lief_ELF_parse (demo_env True) (ParseRaw [PInt 0]) = Inr None"
    by (simp_all add: demo_env_def demo_parse_def)
  from invalid_input_rejected [where w = "demo_env True" and parsed = PNone
          and filepath = None and pseudofile = "PInt 7" and kw = demo_kwargs and st = demo_state]
        invalid_input_rejected [where w = "demo_env True" and parsed = "PStr ''a.out''"
          and filepath = None and pseudofile = PNone and kw = demo_kwargs and st = demo_state]
        invalid_input_rejected [where w = "demo_env True" and parsed = PNone
          and filepath = None and pseudofile = "PList [PStr ''a.out'']"
          and l = "[PStr ''a.out'']" and kw = demo_kwargs and st = demo_state]
        invalid_input_rejected [where w = "demo_env True" and parsed = PNone
          and filepath = None and pseudofile = "PList [PInt 0]"
          and l = "[PInt 0]" and kw = demo_kwargs and st = demo_state]
        parse
  show ?thesis by simp
qed

text \<open>
  C4, as stated, fails on a falsy value of an unsupported type: the integer 0 given as
  raw buffer, or as parsed binary, takes no branch of the input resolution, and the
  constructor fails with an AttributeError instead of \<open>InvalidMISPObject\<close>.
\<close>

theorem falsy_unsupported_input_counterexample:
  "type_of (PInt 0 :: real Binary pyval) \<notin> {T_BytesIO, T_bytes, T_list} \<and>
   ELFObject_init (demo_env True) PNone None (PInt 0) demo_kwargs demo_state
     = (Inl (AttributeError ''_ELFObject__elf''), entered (demo_env True) demo_state) \<and>
   \<not> is_InvalidMISPObject
       (fst (ELFObject_init (demo_env True) PNone None (PInt 0) demo_kwargs demo_state)) \<and>
   type_of (PInt 0 :: real Binary pyval) \<noteq> T_ELF_Binary \<and>
   ELFObject_init (demo_env True) (PInt 0) None PNone demo_kwargs demo_state
     = (Inl (AttributeError ''_ELFObject__elf''), entered (demo_env True) demo_state) \<and>
   \<not> is_InvalidMISPObject
       (fst (ELFObject_init (demo_env True) (PInt 0) None PNone demo_kwargs demo_state))"
  by (simp add: ELFObject_init_unset resolve_input_def)

end
